theory Spec2Isabelle
  imports Complex_Main
begin

section \<open>Floating-point values\<close>

text \<open>
  The scripts compute with Python and NumPy floats. A float is modelled as a real number
  or one of the three special values the code can meet: the two infinities (NumPy
  division by zero, \<^verbatim>\<open>float('inf')\<close>) and NaN, which is also how pandas marks a missing
  cell. A finite value stands for a double. The basic operations on finite values are
  exact real arithmetic: rounding to 53 bits and the sign of zero are not modelled. The
  special values follow IEEE 754 as NumPy implements it. Overflow is a step of its own,
  \<open>to_double\<close> below, taken after every operation whose result can leave the range of the
  doubles.
\<close>

datatype pyfloat = Fin real | PInf | NInf | NaN

fun fsign :: "pyfloat \<Rightarrow> real" where
  "fsign (Fin a) = sgn a"
| "fsign PInf = 1"
| "fsign NInf = -1"
| "fsign NaN = 0"

definition inf_of_sign :: "real \<Rightarrow> pyfloat" where
  "inf_of_sign s = (if 0 < s then PInf else if s < 0 then NInf else NaN)"

fun fneg :: "pyfloat \<Rightarrow> pyfloat" where
  "fneg (Fin a) = Fin (- a)"
| "fneg PInf = NInf"
| "fneg NInf = PInf"
| "fneg NaN = NaN"

fun fadd :: "pyfloat \<Rightarrow> pyfloat \<Rightarrow> pyfloat" where
  "fadd NaN y = NaN"
| "fadd x NaN = NaN"
| "fadd (Fin a) (Fin b) = Fin (a + b)"
| "fadd PInf NInf = NaN"
| "fadd NInf PInf = NaN"
| "fadd PInf y = PInf"
| "fadd x PInf = PInf"
| "fadd NInf y = NInf"
| "fadd x NInf = NInf"

definition fsub :: "pyfloat \<Rightarrow> pyfloat \<Rightarrow> pyfloat" where
  "fsub x y = fadd x (fneg y)"

fun fmul :: "pyfloat \<Rightarrow> pyfloat \<Rightarrow> pyfloat" where
  "fmul NaN y = NaN"
| "fmul x NaN = NaN"
| "fmul (Fin a) (Fin b) = Fin (a * b)"
| "fmul x y = inf_of_sign (fsign x * fsign y)"

text \<open>
  NumPy division: a finite value divided by zero is an infinity of the dividend's sign
  (NaN for \<open>0 / 0\<close>), a finite value divided by an infinity is zero, and an infinity
  divided by an infinity is NaN.
\<close>

fun fdiv :: "pyfloat \<Rightarrow> pyfloat \<Rightarrow> pyfloat" where
  "fdiv NaN y = NaN"
| "fdiv x NaN = NaN"
| "fdiv (Fin a) (Fin b) = (if b = 0 then inf_of_sign (sgn a) else Fin (a / b))"
| "fdiv (Fin a) y = Fin 0"
| "fdiv x (Fin b) = inf_of_sign (fsign x * (if b < 0 then -1 else 1))"
| "fdiv x y = NaN"

text \<open>
  Overflow: a result whose magnitude reaches \<open>2^1024 - 2^970\<close>, half a unit in the last
  place above the largest double, rounds to an infinity of its sign. The operations with
  the suffix \<open>_d\<close> are the basic ones followed by this step.
\<close>

definition dbl_overflow :: real where
  "dbl_overflow = 2 ^ 1024 - 2 ^ 970"

definition to_double :: "pyfloat \<Rightarrow> pyfloat" where
  "to_double x =
     (case x of
        Fin r \<Rightarrow> if dbl_overflow \<le> \<bar>r\<bar> then inf_of_sign r else Fin r
      | PInf \<Rightarrow> PInf
      | NInf \<Rightarrow> NInf
      | NaN \<Rightarrow> NaN)"

definition fsub_d :: "pyfloat \<Rightarrow> pyfloat \<Rightarrow> pyfloat" where
  "fsub_d x y = to_double (fsub x y)"

definition fmul_d :: "pyfloat \<Rightarrow> pyfloat \<Rightarrow> pyfloat" where
  "fmul_d x y = to_double (fmul x y)"

definition fdiv_d :: "pyfloat \<Rightarrow> pyfloat \<Rightarrow> pyfloat" where
  "fdiv_d x y = to_double (fdiv x y)"

text \<open>Comparisons: every comparison with NaN is false.\<close>

fun flt :: "pyfloat \<Rightarrow> pyfloat \<Rightarrow> bool" where
  "flt NaN y = False"
| "flt x NaN = False"
| "flt (Fin a) (Fin b) = (a < b)"
| "flt x PInf = (x \<noteq> PInf)"
| "flt NInf y = (y \<noteq> NInf)"
| "flt x y = False"

definition feq :: "pyfloat \<Rightarrow> pyfloat \<Rightarrow> bool" where
  "feq x y = (x \<noteq> NaN \<and> x = y)"

definition fle :: "pyfloat \<Rightarrow> pyfloat \<Rightarrow> bool" where
  "fle x y = (flt x y \<or> feq x y)"

text \<open>Python's builtin \<^verbatim>\<open>min(a, b)\<close> returns \<open>b\<close> when \<open>b < a\<close> and \<open>a\<close> otherwise.\<close>

definition py_min :: "pyfloat \<Rightarrow> pyfloat \<Rightarrow> pyfloat" where
  "py_min a b = (if flt b a then b else a)"

text \<open>pandas \<^verbatim>\<open>Series.clip(0, 1)\<close>: values below 0 become 0, values above 1 become 1, NaN stays.\<close>

definition clip01 :: "pyfloat \<Rightarrow> pyfloat" where
  "clip01 x = (if flt x (Fin 0) then Fin 0 else if flt (Fin 1) x then Fin 1 else x)"

text \<open>
  \<^verbatim>\<open>round(x, 4)\<close>: to four decimals, ties to the even neighbour; the special values are
  returned unchanged.
\<close>

definition round_half_even :: "real \<Rightarrow> int" where
  "round_half_even x =
     (let f = \<lfloor>x\<rfloor>; d = x - of_int f
      in if d < 1/2 then f else if 1/2 < d then f + 1 else if even f then f else f + 1)"

definition py_round4 :: "pyfloat \<Rightarrow> pyfloat" where
  "py_round4 x = (case x of Fin r \<Rightarrow> Fin (of_int (round_half_even (r * 10000)) / 10000) | _ \<Rightarrow> x)"

text \<open>The score lies in the unit interval: a number between 0 and 1, so not NaN.\<close>

definition in_unit :: "pyfloat \<Rightarrow> bool" where
  "in_unit x = (fle (Fin 0) x \<and> fle x (Fin 1))"

section \<open>Exceptions\<close>

text \<open>Exceptions are values: a computation returns \<open>Inl\<close> of the exception it raises.\<close>

datatype pyerr = TypeError | ValueError | KeyError | OverflowError | IntCastingNaNError

definition bind_err :: "pyerr + 'a \<Rightarrow> ('a \<Rightarrow> pyerr + 'b) \<Rightarrow> pyerr + 'b" where
  "bind_err m f = (case m of Inl e \<Rightarrow> Inl e | Inr v \<Rightarrow> f v)"

fun collect :: "(pyerr + 'a) list \<Rightarrow> pyerr + 'a list" where
  "collect [] = Inr []"
| "collect (x # xs) = bind_err x (\<lambda>v. bind_err (collect xs) (\<lambda>vs. Inr (v # vs)))"

section \<open>Metric normaliser (\<^verbatim>\<open>process_data.py\<close>, \<^verbatim>\<open>normalize_score\<close>)\<close>

text \<open>
  \<^verbatim>\<open>values.min()\<close> and \<^verbatim>\<open>values.max()\<close> of a pandas Series skip NaN and are NaN when
  nothing is left.
\<close>

fun series_min :: "pyfloat list \<Rightarrow> pyfloat" where
  "series_min [] = NaN"
| "series_min (v # vs) =
     (let m = series_min vs
      in if v = NaN then m else if m = NaN then v else if flt v m then v else m)"

fun series_max :: "pyfloat list \<Rightarrow> pyfloat" where
  "series_max [] = NaN"
| "series_max (v # vs) =
     (let m = series_max vs
      in if v = NaN then m else if m = NaN then v else if flt m v then v else m)"

definition normalize_score :: "pyfloat list \<Rightarrow> bool \<Rightarrow> pyfloat list" where
  "normalize_score vals invert =
     (let min_val = series_min vals; max_val = series_max vals
      in if feq max_val min_val then replicate (length vals) (Fin (1/2))
         else
           let normalized = map (\<lambda>v. fdiv_d (fsub_d v min_val) (fsub_d max_val min_val)) vals
           in if invert then map (\<lambda>n. fsub_d (Fin 1) n) normalized else normalized)"

section \<open>Composite scorers\<close>

subsection \<open>Base version (\<^verbatim>\<open>process_data.py\<close>, \<^verbatim>\<open>calculate_vulnerability_scores\<close>)\<close>

text \<open>
  One row of the frame \<^verbatim>\<open>result\<close> once the hurricane risk, the GDP, the population and the
  social vulnerability columns are attached.
\<close>

record county_row =
  NAME :: string
  hurricane_risk :: pyfloat
  gdp :: pyfloat
  population :: pyfloat
  social_vulnerability :: pyfloat

definition fillna :: "pyfloat \<Rightarrow> pyfloat \<Rightarrow> pyfloat" where
  "fillna x d = (if x = NaN then d else x)"

text \<open>
  The social vulnerability of a county. The SVI table is given by its \<^verbatim>\<open>County\<close> and
  \<^verbatim>\<open>SVI\<close> columns, row by row, or is \<open>None\<close> when it lacks one of them. When the table
  has both columns and at least one row, the value is looked up by county name (the last
  row of a name counts, as in \<^verbatim>\<open>dict(zip(...))\<close>) and a missing value is filled with 0.5.
  Otherwise the code draws the value at random between 0.2 and 0.8: the drawn value is the
  parameter \<open>sample\<close>.
\<close>

definition svi_for :: "(string \<times> pyfloat) list option \<Rightarrow> pyfloat \<Rightarrow> string \<Rightarrow> pyfloat" where
  "svi_for svi_df sample county_name =
     (case svi_df of
        None \<Rightarrow> sample
      | Some table \<Rightarrow>
          if table = [] then sample
          else fillna (case map_of (rev table) county_name of None \<Rightarrow> NaN | Some v \<Rightarrow> v)
                 (Fin (1/2)))"

definition gdp_per_capita :: "county_row \<Rightarrow> pyfloat" where
  "gdp_per_capita r = fdiv_d (fmul_d (gdp r) (Fin 1000000)) (population r)"

definition economic_vulnerability :: "county_row list \<Rightarrow> pyfloat list" where
  "economic_vulnerability result = normalize_score (map gdp_per_capita result) True"

text \<open>
  The weights of a composite score add up to one, so on doubles the weighted sum stays
  within the range of its terms and the overflow step has nothing to do.
\<close>

definition weighted_base :: "pyfloat \<Rightarrow> pyfloat \<Rightarrow> pyfloat \<Rightarrow> pyfloat" where
  "weighted_base h s e =
     fadd (fadd (fmul (Fin (40/100)) h) (fmul (Fin (30/100)) s)) (fmul (Fin (30/100)) e)"

definition calculate_vulnerability_scores :: "county_row list \<Rightarrow> pyfloat list" where
  "calculate_vulnerability_scores result =
     map (\<lambda>(r, e). clip01 (weighted_base (hurricane_risk r) (social_vulnerability r) e))
       (zip result (economic_vulnerability result))"

subsection \<open>NOAA-enhanced version (\<^verbatim>\<open>calculate_real_hurricane_risk.py\<close>)\<close>

text \<open>
  \<^verbatim>\<open>update_vulnerability_with_noaa_risk\<close> reads the stored layer, replaces the hurricane
  risk by the NOAA value looked up by county name (keeping the old value where there is
  none) and recomputes the score from the stored social and economic vulnerability.
\<close>

record stored_row =
  s_NAME :: string
  s_hurricane_risk :: pyfloat
  s_social_vulnerability :: pyfloat
  s_economic_vulnerability :: pyfloat

definition noaa_hurricane_risk :: "(string \<rightharpoonup> pyfloat) \<Rightarrow> stored_row \<Rightarrow> pyfloat" where
  "noaa_hurricane_risk risk_lookup r =
     fillna (case risk_lookup (s_NAME r) of None \<Rightarrow> NaN | Some v \<Rightarrow> v) (s_hurricane_risk r)"

definition update_vulnerability_with_noaa_risk ::
  "(string \<rightharpoonup> pyfloat) \<Rightarrow> stored_row list \<Rightarrow> pyfloat list" where
  "update_vulnerability_with_noaa_risk risk_lookup gdf =
     map (\<lambda>r. clip01 (weighted_base (noaa_hurricane_risk risk_lookup r)
                         (s_social_vulnerability r) (s_economic_vulnerability r))) gdf"

subsection \<open>Statista-enhanced version (\<^verbatim>\<open>enrich_with_statista.py\<close>)\<close>

record statista_row =
  median_home_value :: pyfloat
  rural_status :: string

definition statista_default :: statista_row where
  "statista_default = \<lparr>median_home_value = Fin 300000, rural_status = ''suburban''\<rparr>"

definition rural_map :: "string \<rightharpoonup> pyfloat" where
  "rural_map = [''rural'' \<mapsto> Fin 1, ''rural_coastal'' \<mapsto> Fin (9/10),
                ''suburban'' \<mapsto> Fin (4/10), ''urban'' \<mapsto> Fin (2/10)]"

definition rural_factor :: "statista_row \<Rightarrow> pyfloat" where
  "rural_factor d = (case rural_map (rural_status d) of None \<Rightarrow> NaN | Some v \<Rightarrow> v)"

definition property_exposure :: "pyfloat list \<Rightarrow> pyfloat list" where
  "property_exposure home_values =
     map (\<lambda>v. fdiv_d (fsub_d v (series_min home_values))
                      (fsub_d (series_max home_values) (series_min home_values))) home_values"

definition weighted_enhanced ::
  "pyfloat \<Rightarrow> pyfloat \<Rightarrow> pyfloat \<Rightarrow> pyfloat \<Rightarrow> pyfloat \<Rightarrow> pyfloat" where
  "weighted_enhanced h s e p r =
     fadd (fadd (fadd (fadd (fmul (Fin (25/100)) h) (fmul (Fin (20/100)) s))
       (fmul (Fin (20/100)) e)) (fmul (Fin (20/100)) p)) (fmul (Fin (15/100)) r)"

text \<open>
  The new fields are collected row by row into a frame of their own; for a layer without
  rows that frame has no columns, and reading \<^verbatim>\<open>median_home_value\<close> raises \<^verbatim>\<open>KeyError\<close>.
\<close>

definition calculate_enhanced_vulnerability ::
  "stored_row list \<Rightarrow> (string \<rightharpoonup> statista_row) \<Rightarrow> pyerr + pyfloat list" where
  "calculate_enhanced_vulnerability counties_gdf statista_lookup =
     (let new_fields = map (\<lambda>r. case statista_lookup (s_NAME r) of
                                   Some d \<Rightarrow> d | None \<Rightarrow> statista_default) counties_gdf;
          exposure = property_exposure (map median_home_value new_fields)
      in if new_fields = [] then Inl KeyError
         else Inr (map (\<lambda>(r, d, p). clip01 (weighted_enhanced (s_hurricane_risk r)
                     (s_social_vulnerability r) (s_economic_vulnerability r) p (rural_factor d)))
                (zip counties_gdf (zip new_fields exposure))))"

section \<open>Integration script (\<^verbatim>\<open>integrate_data.py\<close>)\<close>

text \<open>
  A cell of a data frame holds a float (NaN when missing) or a string. A row is the list
  of its columns' names and cells; a frame is its column names and its rows.
\<close>

datatype cell = CNum pyfloat | CStr string

type_synonym row = "(string \<times> cell) list"

record frame =
  cols :: "string list"
  rws :: "row list"

text \<open>\<^verbatim>\<open>row.get(key, default)\<close>: the default only when the row has no such column.\<close>

definition row_get :: "row \<Rightarrow> string \<Rightarrow> cell \<Rightarrow> cell" where
  "row_get r k d = (case map_of r k of None \<Rightarrow> d | Some v \<Rightarrow> v)"

definition risk_map :: "string \<rightharpoonup> pyfloat" where
  "risk_map = [''Very Low'' \<mapsto> Fin (1/10), ''Relatively Low'' \<mapsto> Fin (3/10),
               ''Relatively Moderate'' \<mapsto> Fin (5/10), ''Relatively High'' \<mapsto> Fin (7/10),
               ''Very High'' \<mapsto> Fin (9/10), ''Not Applicable'' \<mapsto> Fin 0]"

definition hurricane_score_of :: "cell \<Rightarrow> pyfloat" where
  "hurricane_score_of c =
     (case c of
        CStr s \<Rightarrow> (case risk_map s of Some v \<Rightarrow> v | None \<Rightarrow> Fin (1/2))
      | CNum x \<Rightarrow> Fin (1/2))"

text \<open>
  \<^verbatim>\<open>calculate_vulnerability_score(row)\<close>. Multiplying or dividing a string cell by a float
  raises \<^verbatim>\<open>TypeError\<close>.
\<close>

definition calculate_vulnerability_score :: "row \<Rightarrow> pyerr + pyfloat" where
  "calculate_vulnerability_score rw =
     (let svi_score = row_get rw ''RPL_THEMES'' (CNum (Fin (1/2)));
          hurricane_score =
            hurricane_score_of (row_get rw ''HRCN_RISKR'' (CStr ''Relatively Moderate''));
          gdp_pc = row_get rw ''GDP_PER_CAPITA'' (CNum (Fin 50000));
          max_gdp_per_capita = Fin 150000
      in case gdp_pc of
           CStr t \<Rightarrow> Inl TypeError
         | CNum g \<Rightarrow>
             let economic_score = fsub (Fin 1) (py_min (fdiv g max_gdp_per_capita) (Fin 1))
             in (case svi_score of
                   CStr t \<Rightarrow> Inl TypeError
                 | CNum svi \<Rightarrow>
                     Inr (py_round4
                       (fadd (fadd (fmul svi (Fin (4/10))) (fmul hurricane_score (Fin (4/10))))
                             (fmul economic_score (Fin (2/10)))))))"

definition calculate_risk_category :: "pyfloat \<Rightarrow> string" where
  "calculate_risk_category score =
     (if fle (Fin (8/10)) score then ''Critical''
      else if fle (Fin (6/10)) score then ''High''
      else if fle (Fin (4/10)) score then ''Moderate''
      else if fle (Fin (2/10)) score then ''Low''
      else ''Very Low'')"

subsection \<open>Selecting columns and the left join\<close>

definition select_cols :: "string list \<Rightarrow> frame \<Rightarrow> frame" where
  "select_cols cs f =
     \<lparr>cols = cs, rws = map (\<lambda>r. map (\<lambda>c. (c, row_get r c (CNum NaN))) cs) (rws f)\<rparr>"

text \<open>
  \<^verbatim>\<open>left.merge(right, on=key, how='left', suffixes=('', suffix))\<close>: every row of the left
  frame, in order, once for each row of the right frame with the same key, and once with
  NaN in the right frame's columns when there is none. A column of the right frame whose
  name the left frame already has takes the suffix. A frame without the key column raises
  \<^verbatim>\<open>KeyError\<close>.
\<close>

definition merge_left :: "frame \<Rightarrow> frame \<Rightarrow> string \<Rightarrow> string \<Rightarrow> pyerr + frame" where
  "merge_left left right key suffix =
     (if key \<notin> set (cols left) \<or> key \<notin> set (cols right) then Inl KeyError
      else
        let rcols = filter (\<lambda>c. c \<noteq> key) (cols right);
            rename = (\<lambda>c. if c \<in> set (cols left) then c @ suffix else c);
            attach = (\<lambda>l r. l @ map (\<lambda>c. (rename c, row_get r c (CNum NaN))) rcols);
            missing = map (\<lambda>c. (rename c, CNum NaN)) rcols
        in Inr \<lparr>cols = cols left @ map rename rcols,
                rws = concat (map (\<lambda>l.
                        case filter (\<lambda>r. map_of r key = map_of l key) (rws right) of
                          [] \<Rightarrow> [l @ missing]
                        | m # ms \<Rightarrow> map (attach l) (m # ms)) (rws left))\<rparr>)"

definition require_col :: "string \<Rightarrow> frame \<Rightarrow> pyerr + frame" where
  "require_col c f = (if c \<in> set (cols f) then Inr f else Inl KeyError)"

definition svi_columns :: "string list" where
  "svi_columns = [''FIPS'', ''COUNTY'', ''RPL_THEMES'', ''RPL_THEME1'', ''RPL_THEME2'',
                  ''RPL_THEME3'', ''RPL_THEME4'', ''E_TOTPOP'', ''EP_POV150'', ''EP_UNINSUR'',
                  ''EP_UNEMP'']"

definition nri_columns :: "string list" where
  "nri_columns = [''FIPS'', ''HRCN_RISKR'', ''HRCN_EEAL'', ''HRCN_AFREQ'', ''RISK_RATNG'',
                  ''SOVI_RATNG'']"

text \<open>The three merges of \<^verbatim>\<open>integrate_datasets\<close>, each followed by its match count.\<close>

definition merge_all :: "frame \<Rightarrow> frame \<Rightarrow> frame \<Rightarrow> frame \<Rightarrow> pyerr + frame" where
  "merge_all counties gdp_frame svi nri =
     (if \<not> set [''FIPS'', ''GeoName'', ''GDP_2023''] \<subseteq> set (cols gdp_frame) then Inl KeyError
      else
        let svi_subset = select_cols (filter (\<lambda>c. c \<in> set (cols svi)) svi_columns) svi;
            nri_subset = select_cols (filter (\<lambda>c. c \<in> set (cols nri)) nri_columns) nri
        in bind_err (merge_left counties
                       (select_cols [''FIPS'', ''GeoName'', ''GDP_2023''] gdp_frame)
                       ''FIPS'' ''_gdp'') (\<lambda>m1.
           bind_err (require_col ''GDP_2023'' m1) (\<lambda>m1.
           bind_err (merge_left m1 svi_subset ''FIPS'' ''_svi'') (\<lambda>m2.
           bind_err (require_col ''RPL_THEMES'' m2) (\<lambda>m2.
           bind_err (merge_left m2 nri_subset ''FIPS'' ''_nri'') (\<lambda>m3.
           require_col ''HRCN_RISKR'' m3))))))"

subsection \<open>Derived metrics\<close>

definition cell_num :: "cell \<Rightarrow> pyerr + pyfloat" where
  "cell_num c = (case c of CNum x \<Rightarrow> Inr x | CStr t \<Rightarrow> Inl TypeError)"

text \<open>
  \<^verbatim>\<open>GDP_PER_CAPITA\<close>: GDP (millions) per inhabitant with NaN filled by 50000 when the frame
  has a population column, the constant 50000 otherwise.
\<close>

definition gdp_per_capita_cell :: "frame \<Rightarrow> row \<Rightarrow> pyerr + pyfloat" where
  "gdp_per_capita_cell f r =
     (if ''E_TOTPOP'' \<in> set (cols f)
      then bind_err (cell_num (row_get r ''GDP_2023'' (CNum NaN))) (\<lambda>g.
           bind_err (cell_num (row_get r ''E_TOTPOP'' (CNum NaN))) (\<lambda>n.
           Inr (fillna (fdiv_d (fmul_d g (Fin 1000000)) n) (Fin 50000))))
      else Inr (Fin 50000))"

text \<open>Assigning a column: a column of that name is replaced, a new one is appended.\<close>

definition add_col :: "string \<Rightarrow> cell list \<Rightarrow> frame \<Rightarrow> frame" where
  "add_col c vs f =
     \<lparr>cols = (if c \<in> set (cols f) then cols f else cols f @ [c]),
      rws = map (\<lambda>(r, v). filter (\<lambda>kv. fst kv \<noteq> c) r @ [(c, v)]) (zip (rws f) vs)\<rparr>"

definition with_gdp_per_capita :: "frame \<Rightarrow> pyerr + frame" where
  "with_gdp_per_capita f =
     bind_err (collect (map (gdp_per_capita_cell f) (rws f)))
       (\<lambda>vs. Inr (add_col ''GDP_PER_CAPITA'' (map CNum vs) f))"

definition vulnerability_scores :: "frame \<Rightarrow> pyerr + pyfloat list" where
  "vulnerability_scores f = collect (map calculate_vulnerability_score (rws f))"

subsection \<open>Vulnerability rank\<close>

text \<open>
  The rank column is one call of the data-frame library on the score column, followed by a
  cast to integers. \<^verbatim>\<open>rank(ascending=False, method='min')\<close>, by the library's
  documentation: the scores are put in descending order and a
  score's rank is the first position (from 1) at which its value stands, so equal scores
  share the lowest rank of their group. NaN is not ranked (its rank is NaN), and
  \<^verbatim>\<open>astype(int)\<close> raises when a rank is NaN.
\<close>

fun insort_desc :: "pyfloat \<Rightarrow> pyfloat list \<Rightarrow> pyfloat list" where
  "insort_desc x [] = [x]"
| "insort_desc x (y # ys) = (if fle y x then x # y # ys else y # insort_desc x ys)"

definition sort_desc :: "pyfloat list \<Rightarrow> pyfloat list" where
  "sort_desc xs = foldr insort_desc xs []"

fun first_index :: "pyfloat \<Rightarrow> pyfloat list \<Rightarrow> nat" where
  "first_index x [] = 0"
| "first_index x (y # ys) = (if y = x then 0 else Suc (first_index x ys))"

definition rank_min_desc :: "pyfloat list \<Rightarrow> nat option list" where
  "rank_min_desc scores =
     (let ordered = sort_desc (filter (\<lambda>s. s \<noteq> NaN) scores)
      in map (\<lambda>s. if s = NaN then None else Some (Suc (first_index s ordered))) scores)"

definition astype_int :: "nat option list \<Rightarrow> pyerr + nat list" where
  "astype_int rs = collect (map (\<lambda>r. case r of None \<Rightarrow> Inl IntCastingNaNError | Some n \<Rightarrow> Inr n) rs)"

definition vulnerability_rank :: "pyfloat list \<Rightarrow> pyerr + nat list" where
  "vulnerability_rank scores = astype_int (rank_min_desc scores)"

text \<open>
  The summary statistics add up the GDP column, which raises on a string cell:
  \<^verbatim>\<open>TypeError\<close> when a string is added to a number, \<^verbatim>\<open>ValueError\<close> when the sum of a column
  of strings is formatted as a number.
\<close>

definition is_str :: "cell \<Rightarrow> bool" where
  "is_str c = (case c of CStr t \<Rightarrow> True | CNum x \<Rightarrow> False)"

definition summary_statistics :: "frame \<Rightarrow> pyerr + unit" where
  "summary_statistics f =
     (let total_gdp = map (\<lambda>r. row_get r ''GDP_2023'' (CNum NaN)) (rws f)
      in if list_all (\<lambda>c. \<not> is_str c) total_gdp then Inr ()
         else if list_all is_str total_gdp then Inl ValueError
         else Inl TypeError)"

text \<open>
  \<^verbatim>\<open>integrate_datasets\<close> from the merges to the listing of the ten most vulnerable
  counties: the scores, categories and ranks of the base layer's rows. The key columns are
  taken as already standardised. The listing cuts the frame down to five columns, of which
  \<^verbatim>\<open>VULNERABILITY_RANK\<close> is not one, and then reads that column of every listed row: it
  raises \<^verbatim>\<open>KeyError\<close> as soon as the layer has a row. Writing the files, which comes after
  the listing, is not modelled.
\<close>

definition integrate_datasets ::
  "frame \<Rightarrow> frame \<Rightarrow> frame \<Rightarrow> frame \<Rightarrow> pyerr + (pyfloat \<times> string \<times> nat) list" where
  "integrate_datasets counties gdp_frame svi nri =
     bind_err (merge_all counties gdp_frame svi nri) (\<lambda>merged.
     bind_err (with_gdp_per_capita merged) (\<lambda>vulnerability_map.
     bind_err (vulnerability_scores vulnerability_map) (\<lambda>scores.
     bind_err (vulnerability_rank scores) (\<lambda>ranks.
     bind_err (summary_statistics vulnerability_map) (\<lambda>stats.
     if rws vulnerability_map = [] then
       Inr (zip scores (zip (map calculate_risk_category scores) ranks))
     else Inl KeyError)))))"

section \<open>Real-time threat classifier (\<^verbatim>\<open>fetch_active_hurricanes.py\<close>)\<close>

subsection \<open>Values read from the storm feed\<close>

text \<open>
  A field of a storm in the feed is any JSON value. \<^verbatim>\<open>float(v)\<close> raises \<^verbatim>\<open>TypeError\<close> on
  \<^verbatim>\<open>None\<close>, a list or an object, \<^verbatim>\<open>ValueError\<close> on a string that is not a number, and
  \<^verbatim>\<open>OverflowError\<close> on an integer too large for a double (from \<open>2^1024 - 2^970\<close> on, where
  rounding to nearest leaves the range). Reading a number out of a string is a parameter,
  \<open>parse\<close>, of everything below.
\<close>

datatype json = JNull | JBool bool | JInt int | JFloat pyfloat | JStr string | JOther

type_synonym json_obj = "(string \<times> json) list"

definition obj_get :: "json_obj \<Rightarrow> string \<Rightarrow> json \<Rightarrow> json" where
  "obj_get ob k d = (case map_of ob k of None \<Rightarrow> d | Some v \<Rightarrow> v)"

definition py_float :: "(string \<Rightarrow> pyfloat option) \<Rightarrow> json \<Rightarrow> pyerr + pyfloat" where
  "py_float parse v =
     (case v of
        JNull \<Rightarrow> Inl TypeError
      | JBool b \<Rightarrow> Inr (Fin (if b then 1 else 0))
      | JInt i \<Rightarrow> if 2 ^ 1024 - 2 ^ 970 \<le> \<bar>i\<bar> then Inl OverflowError else Inr (Fin (of_int i))
      | JFloat x \<Rightarrow> Inr x
      | JStr t \<Rightarrow> (case parse t of None \<Rightarrow> Inl ValueError | Some x \<Rightarrow> Inr x)
      | JOther \<Rightarrow> Inl TypeError)"

subsection \<open>Great-circle distance\<close>

definition radians :: "real \<Rightarrow> real" where
  "radians d = d * pi / 180"

definition haversine_km :: "real \<Rightarrow> real \<Rightarrow> real \<Rightarrow> real \<Rightarrow> real" where
  "haversine_km lat1 lon1 lat2 lon2 =
     (let dlat = radians lat2 - radians lat1;
          dlon = radians lon2 - radians lon1;
          a = (sin (dlat / 2))\<^sup>2 + cos (radians lat1) * cos (radians lat2) * (sin (dlon / 2))\<^sup>2;
          c = 2 * arcsin (sqrt a)
      in 6371 * c)"

text \<open>
  With a coordinate that is NaN or infinite, a sine or cosine in the formula is NaN and so
  is the distance.
\<close>

definition great_circle :: "pyfloat \<Rightarrow> pyfloat \<Rightarrow> pyfloat \<Rightarrow> pyfloat \<Rightarrow> pyfloat" where
  "great_circle lat1 lon1 lat2 lon2 =
     (case (lat1, lon1, lat2, lon2) of
        (Fin a, Fin b, Fin c, Fin d) \<Rightarrow> Fin (haversine_km a b c d)
      | _ \<Rightarrow> NaN)"

text \<open>
  \<^verbatim>\<open>haversine_distance\<close>: the four conversions run in order inside the \<^verbatim>\<open>try\<close>; the handler
  catches \<^verbatim>\<open>TypeError\<close> and \<^verbatim>\<open>ValueError\<close> and returns infinity; any other exception leaves
  the function.
\<close>

definition haversine_distance ::
  "(string \<Rightarrow> pyfloat option) \<Rightarrow> json \<Rightarrow> json \<Rightarrow> json \<Rightarrow> json \<Rightarrow> pyerr + pyfloat" where
  "haversine_distance parse lat1 lon1 lat2 lon2 =
     (case bind_err (py_float parse lat1) (\<lambda>a.
           bind_err (py_float parse lon1) (\<lambda>b.
           bind_err (py_float parse lat2) (\<lambda>c.
           bind_err (py_float parse lon2) (\<lambda>d. Inr (great_circle a b c d))))) of
        Inl e \<Rightarrow> if e = TypeError \<or> e = ValueError then Inr PInf else Inl e
      | Inr km \<Rightarrow> Inr km)"

subsection \<open>Fetching the active storms\<close>

text \<open>
  Of a storm's record the position, the name, the wind speed and the category are kept;
  the other fields of \<^verbatim>\<open>storm_info\<close> are copied from the feed and read by nothing below.
  \<^verbatim>\<open>categorize_storm\<close> compares the wind speed with numbers, which raises \<^verbatim>\<open>TypeError\<close> for
  a value that is not a number.
\<close>

record storm =
  storm_name :: json
  latitude :: json
  longitude :: json
  wind_speed_kt :: json
  category :: string

definition json_num :: "json \<Rightarrow> pyerr + pyfloat" where
  "json_num v =
     (case v of
        JBool b \<Rightarrow> Inr (Fin (if b then 1 else 0))
      | JInt i \<Rightarrow> Inr (Fin (of_int i))
      | JFloat x \<Rightarrow> Inr x
      | _ \<Rightarrow> Inl TypeError)"

definition categorize_storm :: "json \<Rightarrow> pyerr + string" where
  "categorize_storm wind =
     bind_err (json_num wind) (\<lambda>w. Inr
       (if flt w (Fin 34) then ''Tropical Depression''
        else if flt w (Fin 64) then ''Tropical Storm''
        else if flt w (Fin 83) then ''Category 1 Hurricane''
        else if flt w (Fin 96) then ''Category 2 Hurricane''
        else if flt w (Fin 113) then ''Category 3 Hurricane''
        else if flt w (Fin 137) then ''Category 4 Hurricane''
        else ''Category 5 Hurricane''))"

definition storm_info :: "json_obj \<Rightarrow> pyerr + storm" where
  "storm_info st =
     bind_err (categorize_storm (obj_get st ''windSpeed'' (JInt 0))) (\<lambda>cat. Inr
       \<lparr>storm_name = obj_get st ''name'' (JStr ''Unnamed''),
        latitude = obj_get st ''latitude'' (JInt 0),
        longitude = obj_get st ''longitude'' (JInt 0),
        wind_speed_kt = obj_get st ''windSpeed'' (JInt 0),
        category = cat\<rparr>)"

text \<open>
  The outcome of the request: a \<^verbatim>\<open>requests.exceptions.RequestException\<close> (no connection, a
  timeout, an HTTP error status), or the list under \<^verbatim>\<open>activeStorms\<close> (empty when the key is
  absent or its value is empty).
\<close>

datatype nhc_response = RequestException | ActiveStorms "json_obj list"

definition fetch_active_storms :: "nhc_response \<Rightarrow> pyerr + storm list" where
  "fetch_active_storms response =
     (case response of
        RequestException \<Rightarrow> Inr []
      | ActiveStorms storms \<Rightarrow> collect (map storm_info storms))"

subsection \<open>County threats\<close>

datatype threat_level = Extreme | High | Moderate | Low | NoThreat

record county_rec =
  c_NAME :: string
  c_enhanced_vulnerability :: "pyfloat option"
  c_vulnerability_score :: "pyfloat option"

record county_threat =
  t_NAME :: string
  current_threat_level :: threat_level
  nearest_storm_name :: "json option"
  has_active_threat :: bool
  enhanced_vulnerability :: pyfloat

text \<open>The loop over the active storms, from \<^verbatim>\<open>min_distance = inf\<close> and no nearest storm.\<close>

fun nearest_storm_loop ::
  "(string \<Rightarrow> pyfloat option) \<Rightarrow> pyfloat \<times> pyfloat \<Rightarrow> storm list \<Rightarrow> pyfloat \<times> storm option
     \<Rightarrow> pyerr + (pyfloat \<times> storm option)" where
  "nearest_storm_loop parse centroid [] acc = Inr acc"
| "nearest_storm_loop parse centroid (s # ss) acc =
     bind_err (haversine_distance parse (JFloat (fst centroid)) (JFloat (snd centroid))
                 (latitude s) (longitude s)) (\<lambda>distance.
       nearest_storm_loop parse centroid ss
         (if flt distance (fst acc) then (distance, Some s) else acc))"

definition threat_level_of :: "pyfloat \<Rightarrow> storm option \<Rightarrow> threat_level" where
  "threat_level_of min_distance nearest =
     (case nearest of
        None \<Rightarrow> NoThreat
      | Some s \<Rightarrow>
          if fle min_distance (Fin 100) then Extreme
          else if fle min_distance (Fin 250) then High
          else if fle min_distance (Fin 500) then Moderate
          else if fle min_distance (Fin 1000) then Low
          else NoThreat)"

definition county_score :: "county_rec \<Rightarrow> pyfloat" where
  "county_score county =
     (case c_enhanced_vulnerability county of
        Some v \<Rightarrow> v
      | None \<Rightarrow> (case c_vulnerability_score county of Some v \<Rightarrow> v | None \<Rightarrow> Fin 0))"

definition county_threat_of ::
  "(string \<Rightarrow> pyfloat option) \<Rightarrow> storm list \<Rightarrow> county_rec \<Rightarrow> pyfloat \<times> pyfloat
     \<Rightarrow> pyerr + county_threat" where
  "county_threat_of parse active_storms county centroid =
     bind_err (nearest_storm_loop parse centroid active_storms (PInf, None)) (\<lambda>(min_distance, nearest).
       let level = threat_level_of min_distance nearest
       in Inr \<lparr>t_NAME = c_NAME county,
               current_threat_level = level,
               nearest_storm_name = map_option storm_name nearest,
               has_active_threat = (level \<noteq> NoThreat),
               enhanced_vulnerability = county_score county\<rparr>)"

text \<open>
  \<^verbatim>\<open>calculate_county_threats\<close>, given the rows of the county table and the centroids read
  from the stored layer; a county without a centroid is skipped.
\<close>

fun calculate_county_threats ::
  "(string \<Rightarrow> pyfloat option) \<Rightarrow> county_rec list \<Rightarrow> (string \<rightharpoonup> pyfloat \<times> pyfloat) \<Rightarrow> storm list
     \<Rightarrow> pyerr + county_threat list" where
  "calculate_county_threats parse [] county_centroids active_storms = Inr []"
| "calculate_county_threats parse (county # rest) county_centroids active_storms =
     (case county_centroids (c_NAME county) of
        None \<Rightarrow> calculate_county_threats parse rest county_centroids active_storms
      | Some centroid \<Rightarrow>
          bind_err (county_threat_of parse active_storms county centroid) (\<lambda>t.
          bind_err (calculate_county_threats parse rest county_centroids active_storms) (\<lambda>ts.
          Inr (t # ts))))"

text \<open>\<^verbatim>\<open>main\<close>: fetch, then assess every county.\<close>

definition classifier_run ::
  "(string \<Rightarrow> pyfloat option) \<Rightarrow> county_rec list \<Rightarrow> (string \<rightharpoonup> pyfloat \<times> pyfloat) \<Rightarrow> nhc_response
     \<Rightarrow> pyerr + county_threat list" where
  "classifier_run parse counties county_centroids response =
     bind_err (fetch_active_storms response)
       (calculate_county_threats parse counties county_centroids)"

subsection \<open>Critical counties\<close>

text \<open>
  \<^verbatim>\<open>list.sort(key=..., reverse=True)\<close> is stable: among equal scores the original order
  stays. It runs on the filtered list, whose scores are all at least 0.6, so never NaN.
\<close>

definition is_critical :: "county_threat \<Rightarrow> bool" where
  "is_critical c =
     ((current_threat_level c = Extreme \<or> current_threat_level c = High)
      \<and> fle (Fin (6/10)) (enhanced_vulnerability c))"

fun insort_threat :: "county_threat \<Rightarrow> county_threat list \<Rightarrow> county_threat list" where
  "insort_threat c [] = [c]"
| "insort_threat c (d # ds) =
     (if fle (enhanced_vulnerability d) (enhanced_vulnerability c) then c # d # ds
      else d # insort_threat c ds)"

definition sort_by_vulnerability :: "county_threat list \<Rightarrow> county_threat list" where
  "sort_by_vulnerability cs = foldr insort_threat cs []"

text \<open>The \<^verbatim>\<open>critical_counties\<close> entry of \<^verbatim>\<open>generate_summary_stats\<close>.\<close>

definition summary_critical_counties :: "county_threat list \<Rightarrow> county_threat list" where
  "summary_critical_counties county_threats =
     take 10 (sort_by_vulnerability (filter is_critical county_threats))"

text \<open>The list served by \<^verbatim>\<open>get_critical_threats\<close> in \<^verbatim>\<open>app/main.py\<close>.\<close>

definition get_critical_threats :: "county_threat list \<Rightarrow> county_threat list" where
  "get_critical_threats threats = sort_by_vulnerability (filter is_critical threats)"

section \<open>Worked inputs\<close>

text \<open>
  Two counties of the base layer, both in the GDP and the hazard tables, and a
  social-vulnerability table that holds only the first; \<open>demo_merged\<close> is the frame the
  three merges give. \<open>demo_svi_full\<close> is a social-vulnerability table that holds both.
\<close>

definition demo_counties :: frame where
  "demo_counties = \<lparr>cols = [''FIPS'', ''NAME''],
     rws = [[(''FIPS'', CStr ''12001''), (''NAME'', CStr ''Alachua'')],
            [(''FIPS'', CStr ''12003''), (''NAME'', CStr ''Baker'')]]\<rparr>"

definition demo_gdp :: frame where
  "demo_gdp = \<lparr>cols = [''FIPS'', ''GeoName'', ''GDP_2023''],
     rws = [[(''FIPS'', CStr ''12001''), (''GeoName'', CStr ''Alachua''), (''GDP_2023'', CNum (Fin 15000))],
            [(''FIPS'', CStr ''12003''), (''GeoName'', CStr ''Baker''), (''GDP_2023'', CNum (Fin 900))]]\<rparr>"

definition demo_svi :: frame where
  "demo_svi = \<lparr>cols = [''FIPS'', ''RPL_THEMES'', ''E_TOTPOP''],
     rws = [[(''FIPS'', CStr ''12001''), (''RPL_THEMES'', CNum (Fin (1/2))), (''E_TOTPOP'', CNum (Fin 500000))]]\<rparr>"

definition demo_svi_full :: frame where
  "demo_svi_full = \<lparr>cols = [''FIPS'', ''RPL_THEMES'', ''E_TOTPOP''],
     rws = [[(''FIPS'', CStr ''12001''), (''RPL_THEMES'', CNum (Fin (1/2))), (''E_TOTPOP'', CNum (Fin 500000))],
            [(''FIPS'', CStr ''12003''), (''RPL_THEMES'', CNum (Fin (3/10))), (''E_TOTPOP'', CNum (Fin 30000))]]\<rparr>"

definition demo_nri :: frame where
  "demo_nri = \<lparr>cols = [''FIPS'', ''HRCN_RISKR''],
     rws = [[(''FIPS'', CStr ''12001''), (''HRCN_RISKR'', CStr ''Relatively High'')],
            [(''FIPS'', CStr ''12003''), (''HRCN_RISKR'', CStr ''Relatively Moderate'')]]\<rparr>"

definition demo_merged :: frame where
  "demo_merged = \<lparr>cols = [''FIPS'', ''NAME'', ''GeoName'', ''GDP_2023'', ''RPL_THEMES'', ''E_TOTPOP'', ''HRCN_RISKR''],
     rws = [[(''FIPS'', CStr ''12001''), (''NAME'', CStr ''Alachua''), (''GeoName'', CStr ''Alachua''),
             (''GDP_2023'', CNum (Fin 15000)), (''RPL_THEMES'', CNum (Fin (1/2))),
             (''E_TOTPOP'', CNum (Fin 500000)), (''HRCN_RISKR'', CStr ''Relatively High'')],
            [(''FIPS'', CStr ''12003''), (''NAME'', CStr ''Baker''), (''GeoName'', CStr ''Baker''),
             (''GDP_2023'', CNum (Fin 900)), (''RPL_THEMES'', CNum NaN),
             (''E_TOTPOP'', CNum NaN), (''HRCN_RISKR'', CStr ''Relatively Moderate'')]]\<rparr>"

text \<open>
  Threat records: eleven counties under a high threat, ten of them with a score of 0.9 and
  one with a score of 0.6; and a storm for the distance loop.
\<close>

definition demo_threat :: "string \<Rightarrow> threat_level \<Rightarrow> real \<Rightarrow> county_threat" where
  "demo_threat name level score =
     \<lparr>t_NAME = name, current_threat_level = level, nearest_storm_name = Some (JStr ''Ana''),
      has_active_threat = (level \<noteq> NoThreat), enhanced_vulnerability = Fin score\<rparr>"

definition demo_threats :: "county_threat list" where
  "demo_threats =
     demo_threat ''Zeta'' High (6/10) #
     map (\<lambda>n. demo_threat n High (9/10))
       [''A'', ''B'', ''C'', ''D'', ''E'', ''F'', ''G'', ''H'', ''I'', ''J'']"

definition demo_storm :: "json \<Rightarrow> json \<Rightarrow> storm" where
  "demo_storm lat lon =
     \<lparr>storm_name = JStr ''Ana'', latitude = lat, longitude = lon, wind_speed_kt = JInt 70,
      category = ''Category 1 Hurricane''\<rparr>"

section \<open>Properties of the float operations\<close>

lemma flt_Fin [simp]: "flt (Fin a) (Fin b) = (a < b)"
  by simp

lemma feq_Fin [simp]: "feq (Fin a) (Fin b) = (a = b)"
  by (simp add: feq_def)

lemma fle_Fin [simp]: "fle (Fin a) (Fin b) = (a \<le> b)"
  by (auto simp: fle_def feq_def)

lemma fsub_Fin [simp]: "fsub (Fin a) (Fin b) = Fin (a - b)"
  by (simp add: fsub_def)

lemma flt_PInf_left [simp]: "flt PInf x = False"
  by (cases x) simp_all

lemma flt_NaN_right [simp]: "flt x NaN = False"
  by (cases x) simp_all

lemma fle_total: "x \<noteq> NaN \<Longrightarrow> y \<noteq> NaN \<Longrightarrow> fle x y \<or> fle y x"
  by (cases x; cases y) (auto simp: fle_def feq_def)

lemma fle_trans: "fle x y \<Longrightarrow> fle y z \<Longrightarrow> fle x z"
  by (cases x; cases y; cases z) (auto simp: fle_def feq_def)

lemma flt_iff: "flt x y \<longleftrightarrow> fle x y \<and> x \<noteq> y"
  by (cases x; cases y) (auto simp: fle_def feq_def)

lemma flt_not_fle: "flt x y \<Longrightarrow> \<not> fle y x"
  by (cases x; cases y) (auto simp: fle_def feq_def)

lemma flt_trans: "flt x y \<Longrightarrow> flt y z \<Longrightarrow> flt x z"
  by (cases x; cases y; cases z) auto

lemma not_flt_trans:
  "y \<noteq> NaN \<Longrightarrow> \<not> flt x y \<Longrightarrow> \<not> flt y z \<Longrightarrow> \<not> flt x z"
  by (cases x; cases y; cases z) auto

lemma flt_not_NaN_left: "flt x y \<Longrightarrow> x \<noteq> NaN"
  by (cases x) auto

lemma fle_not_NaN: "fle x y \<Longrightarrow> y \<noteq> NaN"
  by (cases x; cases y) (auto simp: fle_def feq_def)

lemma clip01_range: "clip01 x = NaN \<or> in_unit (clip01 x)"
  by (cases x) (auto simp: clip01_def in_unit_def fle_def feq_def)

lemma clip01_id: "in_unit x \<Longrightarrow> clip01 x = x"
  by (cases x) (auto simp: clip01_def in_unit_def fle_def feq_def)

section \<open>The metric normaliser\<close>

lemma series_min_Fin:
  "series_min (map Fin xs) = (if xs = [] then NaN else Fin (Min (set xs)))"
proof (induction xs)
  case Nil
  then show ?case by simp
next
  case (Cons a xs)
  show ?case
  proof (cases "xs = []")
    case True
    then show ?thesis by simp
  next
    case False
    define m where "m = Min (set xs)"
    have "Min (set (a # xs)) = min a m" using False by (simp add: m_def)
    moreover have "series_min (map Fin xs) = Fin m" using Cons False by (simp add: m_def)
    moreover have "series_min (Fin a # map Fin xs) = Fin (min a m)"
      using \<open>series_min (map Fin xs) = Fin m\<close> by (simp add: Let_def min_def)
    ultimately show ?thesis by simp
  qed
qed

lemma series_max_Fin:
  "series_max (map Fin xs) = (if xs = [] then NaN else Fin (Max (set xs)))"
proof (induction xs)
  case Nil
  then show ?case by simp
next
  case (Cons a xs)
  show ?case
  proof (cases "xs = []")
    case True
    then show ?thesis by simp
  next
    case False
    define m where "m = Max (set xs)"
    have "Max (set (a # xs)) = max a m" using False by (simp add: m_def)
    moreover have "series_max (map Fin xs) = Fin m" using Cons False by (simp add: m_def)
    moreover have "series_max (Fin a # map Fin xs) = Fin (max a m)"
      using \<open>series_max (map Fin xs) = Fin m\<close> by (simp add: Let_def max_def)
    ultimately show ?thesis by simp
  qed
qed

lemma length_normalize_score: "length (normalize_score vals invert) = length vals"
  by (simp add: normalize_score_def Let_def)

lemma normalize_score_Fin_const:
  assumes "xs \<noteq> []" "Max (set xs) = Min (set xs)"
  shows "normalize_score (map Fin xs) invert = replicate (length xs) (Fin (1/2))"
  using assms by (simp add: normalize_score_def series_min_Fin series_max_Fin)

lemma unit_interval_quot:
  fixes v lo hi :: real
  assumes "lo \<le> v" "v \<le> hi" "lo \<noteq> hi"
  shows "0 \<le> (v - lo) / (hi - lo) \<and> (v - lo) / (hi - lo) \<le> 1"
proof -
  have "lo < hi" using assms by linarith
  then show ?thesis using assms by (simp add: field_simps)
qed

text \<open>In range: no overflow for a difference of two values up to \<open>2^1022\<close>, nor in the unit interval.\<close>

lemma to_double_diff:
  assumes "\<bar>a\<bar> \<le> 2 ^ 1022" "\<bar>b\<bar> \<le> 2 ^ 1022"
  shows "fsub_d (Fin a) (Fin b) = Fin (a - b)"
proof -
  define B :: real where "B = 2 ^ 1022"
  have "2 * B < dbl_overflow" by (simp add: B_def dbl_overflow_def)
  moreover have "\<bar>a - b\<bar> \<le> 2 * B" using assms by (simp add: B_def)
  ultimately have "\<not> dbl_overflow \<le> \<bar>a - b\<bar>" by linarith
  then show ?thesis by (simp add: fsub_d_def to_double_def)
qed

lemma to_double_unit:
  assumes "0 \<le> q" "q \<le> 1"
  shows "to_double (Fin q) = Fin q"
proof -
  have "1 < dbl_overflow" by (simp add: dbl_overflow_def)
  then have "\<not> dbl_overflow \<le> \<bar>q\<bar>" using assms by linarith
  then show ?thesis by (simp add: to_double_def)
qed

lemma normalize_element:
  assumes b: "\<forall>x\<in>set xs. \<bar>x\<bar> \<le> 2 ^ 1022" and v: "v \<in> set xs"
    and sp: "Max (set xs) \<noteq> Min (set xs)"
  shows "fdiv_d (fsub_d (Fin v) (Fin (Min (set xs)))) (fsub_d (Fin (Max (set xs))) (Fin (Min (set xs))))
           = Fin ((v - Min (set xs)) / (Max (set xs) - Min (set xs)))"
    and "fsub_d (Fin 1) (Fin ((v - Min (set xs)) / (Max (set xs) - Min (set xs))))
           = Fin (1 - (v - Min (set xs)) / (Max (set xs) - Min (set xs)))"
proof -
  let ?lo = "Min (set xs)" and ?hi = "Max (set xs)"
  have ne: "set xs \<noteq> {}" using v by auto
  have lo_in: "?lo \<in> set xs" and hi_in: "?hi \<in> set xs" using ne by (simp_all add: Min_in Max_in)
  have q: "0 \<le> (v - ?lo) / (?hi - ?lo) \<and> (v - ?lo) / (?hi - ?lo) \<le> 1"
    using v sp by (intro unit_interval_quot) auto
  have d1: "fsub_d (Fin v) (Fin ?lo) = Fin (v - ?lo)"
    using b v lo_in by (intro to_double_diff) auto
  have d2: "fsub_d (Fin ?hi) (Fin ?lo) = Fin (?hi - ?lo)"
    using b hi_in lo_in by (intro to_double_diff) auto
  show "fdiv_d (fsub_d (Fin v) (Fin ?lo)) (fsub_d (Fin ?hi) (Fin ?lo)) = Fin ((v - ?lo) / (?hi - ?lo))"
    using sp q by (simp add: d1 d2 fdiv_d_def to_double_unit)
  have "0 \<le> 1 - (v - ?lo) / (?hi - ?lo) \<and> 1 - (v - ?lo) / (?hi - ?lo) \<le> 1" using q by simp
  then show "fsub_d (Fin 1) (Fin ((v - ?lo) / (?hi - ?lo))) = Fin (1 - (v - ?lo) / (?hi - ?lo))"
    by (simp add: fsub_d_def to_double_unit)
qed

lemma normalize_score_Fin_spread:
  assumes "\<forall>x\<in>set xs. \<bar>x\<bar> \<le> 2 ^ 1022" "xs \<noteq> []" "Max (set xs) \<noteq> Min (set xs)"
  shows "normalize_score (map Fin xs) invert =
           map (\<lambda>v. Fin (if invert then 1 - (v - Min (set xs)) / (Max (set xs) - Min (set xs))
                          else (v - Min (set xs)) / (Max (set xs) - Min (set xs)))) xs"
  using assms
  by (simp add: normalize_score_def series_min_Fin series_max_Fin Let_def comp_def
      normalize_element cong: map_cong)

lemma normalize_score_Fin_nth:
  assumes "\<forall>x\<in>set xs. \<bar>x\<bar> \<le> 2 ^ 1022" "i < length xs" "Max (set xs) \<noteq> Min (set xs)"
  shows "normalize_score (map Fin xs) invert ! i =
           Fin (if invert then 1 - (xs ! i - Min (set xs)) / (Max (set xs) - Min (set xs))
                else (xs ! i - Min (set xs)) / (Max (set xs) - Min (set xs)))"
proof -
  have "xs \<noteq> []" using assms(2) by auto
  then show ?thesis using assms by (simp add: normalize_score_Fin_spread)
qed

text \<open>
  On a vector of finite numbers of magnitude up to \<open>2^1022\<close>, whose differences stay in
  the range of the doubles, \<^verbatim>\<open>normalize_score\<close> keeps its contract: the same length; 0.5
  everywhere when the maximum and the minimum are equal; otherwise element \<open>i\<close> is
  \<open>(x\<^sub>i - min) / (max - min)\<close>, or one minus that in inverse mode, in the unit interval,
  with the minimum at 0 and the maximum at 1 in direct mode.
\<close>

theorem normalize_score_contract_in_range:
  assumes b: "\<forall>x\<in>set xs. \<bar>x\<bar> \<le> 2 ^ 1022"
  shows "length (normalize_score (map Fin xs) invert) = length xs \<and>
   (\<forall>i < length xs.
      (Max (set xs) = Min (set xs) \<longrightarrow> normalize_score (map Fin xs) invert ! i = Fin (1/2)) \<and>
      (Max (set xs) \<noteq> Min (set xs) \<longrightarrow>
         normalize_score (map Fin xs) invert ! i =
           Fin (if invert then 1 - (xs ! i - Min (set xs)) / (Max (set xs) - Min (set xs))
                else (xs ! i - Min (set xs)) / (Max (set xs) - Min (set xs))) \<and>
         in_unit (normalize_score (map Fin xs) invert ! i) \<and>
         (xs ! i = Min (set xs) \<longrightarrow> normalize_score (map Fin xs) False ! i = Fin 0) \<and>
         (xs ! i = Max (set xs) \<longrightarrow> normalize_score (map Fin xs) False ! i = Fin 1)))"
proof (intro conjI allI impI)
  show "length (normalize_score (map Fin xs) invert) = length xs"
    by (simp add: length_normalize_score)
next
  fix i assume "i < length xs" "Max (set xs) = Min (set xs)"
  moreover from this have "xs \<noteq> []" by auto
  ultimately show "normalize_score (map Fin xs) invert ! i = Fin (1/2)"
    by (simp add: normalize_score_Fin_const)
next
  fix i assume i: "i < length xs" and ne: "Max (set xs) \<noteq> Min (set xs)"
  let ?lo = "Min (set xs)" and ?hi = "Max (set xs)"
  have mem: "xs ! i \<in> set xs" using i by simp
  have r: "?lo \<le> xs ! i" "xs ! i \<le> ?hi" using mem by simp_all
  note q = unit_interval_quot[OF r ne[symmetric]]
  show "normalize_score (map Fin xs) invert ! i =
           Fin (if invert then 1 - (xs ! i - ?lo) / (?hi - ?lo) else (xs ! i - ?lo) / (?hi - ?lo))"
    by (rule normalize_score_Fin_nth[OF b i ne])
  show "in_unit (normalize_score (map Fin xs) invert ! i)"
    using q by (simp add: normalize_score_Fin_nth[OF b i ne] in_unit_def)
  { assume "xs ! i = ?lo"
    then show "normalize_score (map Fin xs) False ! i = Fin 0"
      by (simp add: normalize_score_Fin_nth[OF b i ne]) }
  { assume "xs ! i = ?hi"
    then show "normalize_score (map Fin xs) False ! i = Fin 1"
      using ne by (simp add: normalize_score_Fin_nth[OF b i ne]) }
qed

lemmas double_ops = fsub_d_def fmul_d_def fdiv_d_def to_double_def dbl_overflow_def fsub_def

text \<open>
  Claim C4 at its failing inputs. The GDP per capita of a county with population 0 is
  infinite, and \<open>[0, inf]\<close> normalises to \<open>[0, NaN]\<close>: the maximum differs from the minimum
  and maps to NaN, not to 1. A missing element stays NaN. On the finite vector
  \<open>[2^1023, -2^1023, 0]\<close> the spread overflows to infinity and the result is
  \<open>[NaN, 0, 0]\<close>. NaN is outside the unit interval.
\<close>

theorem normalize_score_leaves_unit_interval:
  "series_min [Fin 0, PInf] = Fin 0 \<and> series_max [Fin 0, PInf] = PInf \<and>
   normalize_score [Fin 0, PInf] False = [Fin 0, NaN] \<and>
   normalize_score [NaN, Fin 1, Fin 2] False = [NaN, Fin 0, Fin 1] \<and>
   normalize_score [Fin (2 ^ 1023), Fin (- (2 ^ 1023)), Fin 0] False = [NaN, Fin 0, Fin 0] \<and>
   \<not> in_unit NaN \<and>
   gdp_per_capita \<lparr>NAME = ''A'', hurricane_risk = Fin (1/2), gdp = Fin 100, population = Fin 0,
      social_vulnerability = Fin (1/2)\<rparr> = PInf"
  by (simp add: normalize_score_def feq_def fle_def inf_of_sign_def in_unit_def
      gdp_per_capita_def double_ops)

text \<open>
  Claim C3. The normaliser is not idempotent: there is a vector whose normalisation changes
  when normalised again (\<open>[0, inf]\<close> becomes \<open>[0, NaN]\<close> and then \<open>[0.5, 0.5]\<close>); in inverse
  mode this already happens on finite vectors (\<open>[1, 2, 4]\<close>); and normalising a vector
  whose values already lie in the unit interval may change it (\<open>[0, 0.5]\<close> becomes
  \<open>[0, 1]\<close>), also when the vector is a normalised vector with one county left out
  (\<open>[1, 2, 4]\<close> normalises to \<open>[0, 1/3, 1]\<close>, and \<open>[0, 1/3]\<close> to \<open>[0, 1]\<close>).
\<close>

theorem normalize_score_not_idempotent:
  "(\<exists>vals. normalize_score (normalize_score vals False) False \<noteq> normalize_score vals False) \<and>
   (\<exists>xs. normalize_score (normalize_score (map Fin xs) True) True \<noteq> normalize_score (map Fin xs) True) \<and>
   (\<exists>xs. list_all (\<lambda>x. 0 \<le> x \<and> x \<le> 1) xs \<and> normalize_score (map Fin xs) False \<noteq> map Fin xs) \<and>
   (\<exists>xs. normalize_score (butlast (normalize_score (map Fin xs) False)) False
           \<noteq> butlast (normalize_score (map Fin xs) False))"
proof (intro conjI)
  have "normalize_score (butlast (normalize_score (map Fin [1, 2, 4]) False)) False
          \<noteq> butlast (normalize_score (map Fin [1, 2, 4]) False)"
    by (simp add: normalize_score_def feq_def double_ops)
  then show "\<exists>xs. normalize_score (butlast (normalize_score (map Fin xs) False)) False
           \<noteq> butlast (normalize_score (map Fin xs) False)"
    by blast
  have "normalize_score (normalize_score [Fin 0, PInf] False) False \<noteq> normalize_score [Fin 0, PInf] False"
    by (simp add: normalize_score_def feq_def inf_of_sign_def double_ops)
  then show "\<exists>vals. normalize_score (normalize_score vals False) False \<noteq> normalize_score vals False"
    by blast
  have "normalize_score (normalize_score (map Fin [1, 2, 4]) True) True \<noteq> normalize_score (map Fin [1, 2, 4]) True"
    by (simp add: normalize_score_def feq_def double_ops)
  then show "\<exists>xs. normalize_score (normalize_score (map Fin xs) True) True \<noteq> normalize_score (map Fin xs) True"
    by blast
  have "list_all (\<lambda>x. 0 \<le> x \<and> x \<le> 1) [0, 1/2 :: real] \<and> normalize_score (map Fin [0, 1/2]) False \<noteq> map Fin [0, 1/2]"
    by (simp add: normalize_score_def feq_def double_ops)
  then show "\<exists>xs. list_all (\<lambda>x. 0 \<le> x \<and> x \<le> 1) xs \<and> normalize_score (map Fin xs) False \<noteq> map Fin xs"
    by blast
qed

lemma normalize_score_Fin_extrema:
  fixes xs :: "real list"
  assumes ne: "xs \<noteq> []" and sp: "Max (set xs) \<noteq> Min (set xs)"
  defines "ys \<equiv> map (\<lambda>v. (v - Min (set xs)) / (Max (set xs) - Min (set xs))) xs"
  shows "Min (set ys) = 0" and "Max (set ys) = 1" and "\<forall>y\<in>set ys. \<bar>y\<bar> \<le> 2 ^ 1022"
proof -
  let ?lo = "Min (set xs)" and ?hi = "Max (set xs)"
  let ?f = "\<lambda>v. (v - ?lo) / (?hi - ?lo)"
  have eq: "set ys = ?f ` set xs" by (simp add: ys_def)
  have lo_in: "?lo \<in> set xs" and hi_in: "?hi \<in> set xs"
    using ne by (simp_all add: Min_in Max_in)
  have rng: "0 \<le> ?f v \<and> ?f v \<le> 1" if "v \<in> set xs" for v
    using that unit_interval_quot[of ?lo v ?hi] sp by simp
  have "?f ?lo = 0" by simp
  then have z: "0 \<in> ?f ` set xs" using lo_in by (metis imageI)
  have "?f ?hi = 1" using sp by simp
  then have o: "1 \<in> ?f ` set xs" using hi_in by (metis imageI)
  show "Min (set ys) = 0"
    unfolding eq using z rng by (intro Min_eqI) auto
  show "Max (set ys) = 1"
    unfolding eq using o rng by (intro Max_eqI) auto
  have big: "(1::real) \<le> 2 ^ 1022" by (rule one_le_power) simp
  show "\<forall>y\<in>set ys. \<bar>y\<bar> \<le> 2 ^ 1022"
  proof
    fix y assume "y \<in> set ys"
    then obtain v where "v \<in> set xs" "y = ?f v" unfolding eq by auto
    then have "0 \<le> y \<and> y \<le> 1" using rng by simp
    then show "\<bar>y\<bar> \<le> 2 ^ 1022" using big by linarith
  qed
qed

text \<open>
  In direct mode and on such vectors the normaliser is idempotent: the first pass already
  puts the minimum at 0 and the maximum at 1.
\<close>

theorem normalize_score_idempotent_in_range:
  assumes b: "\<forall>x\<in>set xs. \<bar>x\<bar> \<le> 2 ^ 1022"
  shows "normalize_score (normalize_score (map Fin xs) False) False = normalize_score (map Fin xs) False"
proof (cases "xs = []")
  case True
  then show ?thesis by (simp add: normalize_score_def feq_def)
next
  case ne: False
  show ?thesis
  proof (cases "Max (set xs) = Min (set xs)")
    case True
    have "normalize_score (map Fin xs) False = map Fin (replicate (length xs) (1/2))"
      by (simp add: normalize_score_Fin_const[OF ne True])
    moreover have "normalize_score (map Fin (replicate (length xs) (1/2))) False
                     = replicate (length (replicate (length xs) (1/2::real))) (Fin (1/2))"
      using ne by (intro normalize_score_Fin_const) auto
    ultimately show ?thesis by simp
  next
    case sp: False
    define ys where "ys = map (\<lambda>v. (v - Min (set xs)) / (Max (set xs) - Min (set xs))) xs"
    have y: "normalize_score (map Fin xs) False = map Fin ys"
      by (simp add: normalize_score_Fin_spread[OF b ne sp] ys_def comp_def)
    have yne: "ys \<noteq> []" using ne by (simp add: ys_def)
    have ex: "Min (set ys) = 0" "Max (set ys) = 1" and yb: "\<forall>y\<in>set ys. \<bar>y\<bar> \<le> 2 ^ 1022"
      unfolding ys_def by (rule normalize_score_Fin_extrema[OF ne sp])+
    have "normalize_score (map Fin ys) False = map Fin ys"
      using yne yb by (subst normalize_score_Fin_spread) (simp_all add: ex)
    then show ?thesis by (simp add: y)
  qed
qed

section \<open>The composite scorers\<close>

lemma weighted_base_Fin:
  "weighted_base (Fin h) (Fin s) (Fin e) = Fin (40/100 * h + 30/100 * s + 30/100 * e)"
  by (simp add: weighted_base_def)

text \<open>
  The three scorers that clip: every score they return is NaN or lies in the unit
  interval.
\<close>

theorem clipped_scores_in_unit_or_NaN:
  "list_all (\<lambda>x. x = NaN \<or> in_unit x) (calculate_vulnerability_scores result) \<and>
   list_all (\<lambda>x. x = NaN \<or> in_unit x) (update_vulnerability_with_noaa_risk risk_lookup gdf) \<and>
   list_all (\<lambda>x. x = NaN \<or> in_unit x)
     (case calculate_enhanced_vulnerability counties_gdf statista_lookup of
        Inl e \<Rightarrow> [] | Inr scores \<Rightarrow> scores)"
  using clip01_range
  by (auto simp: list_all_iff calculate_vulnerability_scores_def
      update_vulnerability_with_noaa_risk_def calculate_enhanced_vulnerability_def Let_def
      split_def)

text \<open>
  Claim C1 at its failing inputs. The scorer of \<^verbatim>\<open>integrate_data.py\<close> rounds its weighted sum
  and never clamps it: a social-vulnerability value of 2 gives the score 1.32 and the value
  -999 gives -399.08. The Statista scorer divides by the spread of the home values with no
  guard for a zero spread, so a layer whose home values are all equal (here a single county
  with the default value) gets the score NaN, which clipping leaves as it is.
\<close>

theorem integrate_score_not_clamped:
  "calculate_vulnerability_score
     [(''RPL_THEMES'', CNum (Fin 2)), (''HRCN_RISKR'', CStr ''Very High''),
      (''GDP_PER_CAPITA'', CNum (Fin 30000))] = Inr (Fin (132/100)) \<and>
   \<not> in_unit (Fin (132/100)) \<and>
   calculate_vulnerability_score
     [(''RPL_THEMES'', CNum (Fin (-999))), (''HRCN_RISKR'', CStr ''Very High''),
      (''GDP_PER_CAPITA'', CNum (Fin 30000))] = Inr (Fin (-39908/100)) \<and>
   \<not> in_unit (Fin (-39908/100)) \<and>
   calculate_enhanced_vulnerability
     [\<lparr>s_NAME = ''Alachua'', s_hurricane_risk = Fin (1/2), s_social_vulnerability = Fin (1/2),
       s_economic_vulnerability = Fin (1/2)\<rparr>] Map.empty = Inr [NaN] \<and>
   \<not> in_unit NaN"
  by (simp add: calculate_vulnerability_score_def row_get_def hurricane_score_of_def risk_map_def
      py_min_def double_ops py_round4_def round_half_even_def in_unit_def fle_def feq_def
      calculate_enhanced_vulnerability_def statista_default_def property_exposure_def
      inf_of_sign_def weighted_enhanced_def clip01_def)

text \<open>
  Claim C5 as stated fails twice. The scorer of \<^verbatim>\<open>integrate_data.py\<close> weighs the social
  vulnerability 0.4, the hurricane risk 0.4 and the economic term 0.2: a row with the values
  0.5, 0.9 and 0.8 scores 0.72, where the claim's weights give 0.75. The scorer of
  \<^verbatim>\<open>process_data.py\<close> clips: a county whose weighted sum is 2.16 scores 1.
\<close>

theorem base_formula_counterexample:
  "calculate_vulnerability_score
     [(''RPL_THEMES'', CNum (Fin (1/2))), (''HRCN_RISKR'', CStr ''Very High''),
      (''GDP_PER_CAPITA'', CNum (Fin 30000))] = Inr (Fin (72/100)) \<and>
   weighted_base (Fin (9/10)) (Fin (1/2)) (Fin (8/10)) = Fin (75/100) \<and>
   calculate_vulnerability_scores
     [\<lparr>NAME = ''A'', hurricane_risk = Fin (9/10), gdp = Fin 100, population = Fin 1000,
       social_vulnerability = Fin 5\<rparr>,
      \<lparr>NAME = ''B'', hurricane_risk = Fin (1/2), gdp = Fin 300, population = Fin 1000,
       social_vulnerability = Fin (1/2)\<rparr>] = [Fin 1, Fin (35/100)] \<and>
   weighted_base (Fin (9/10)) (Fin 5) (Fin 1) = Fin (216/100)"
  by (simp add: calculate_vulnerability_score_def row_get_def hurricane_score_of_def risk_map_def
      py_min_def double_ops py_round4_def round_half_even_def weighted_base_def
      calculate_vulnerability_scores_def economic_vulnerability_def gdp_per_capita_def
      normalize_score_def feq_def clip01_def)

text \<open>
  Claim C5, as amended. In \<^verbatim>\<open>process_data.py\<close> and in the NOAA update, every county's score is
  the weighted sum 0.40 hurricane risk + 0.30 social vulnerability + 0.30 economic
  vulnerability clipped to the unit interval, where in \<^verbatim>\<open>process_data.py\<close> the economic
  vulnerability is the inverse-normalised GDP per capita; the score is the weighted sum
  itself whenever that sum lies between 0 and 1. The scorer of \<^verbatim>\<open>integrate_data.py\<close> is
  another formula: 0.4 social vulnerability + 0.4 hurricane score + 0.2 economic score,
  the economic score being one minus the GDP per capita over 150000, capped at 1, and the
  sum rounded to four decimals.
\<close>

theorem base_formula_clipped:
  "length (calculate_vulnerability_scores result) = length result \<and>
   (\<forall>i < length result.
      calculate_vulnerability_scores result ! i =
        clip01 (weighted_base (hurricane_risk (result ! i)) (social_vulnerability (result ! i))
                  (normalize_score (map gdp_per_capita result) True ! i))) \<and>
   length (update_vulnerability_with_noaa_risk risk_lookup gdf) = length gdf \<and>
   (\<forall>i < length gdf.
      update_vulnerability_with_noaa_risk risk_lookup gdf ! i =
        clip01 (weighted_base (noaa_hurricane_risk risk_lookup (gdf ! i))
                  (s_social_vulnerability (gdf ! i)) (s_economic_vulnerability (gdf ! i)))) \<and>
   weighted_base (Fin h) (Fin s) (Fin e) = Fin (40/100 * h + 30/100 * s + 30/100 * e) \<and>
   (0 \<le> 40/100 * h + 30/100 * s + 30/100 * e \<and> 40/100 * h + 30/100 * s + 30/100 * e \<le> 1 \<longrightarrow>
      clip01 (weighted_base (Fin h) (Fin s) (Fin e)) = Fin (40/100 * h + 30/100 * s + 30/100 * e)) \<and>
   (hurricane_score_of (CStr rating) = Fin hs \<longrightarrow>
      calculate_vulnerability_score
        [(''RPL_THEMES'', CNum (Fin svi)), (''HRCN_RISKR'', CStr rating),
         (''GDP_PER_CAPITA'', CNum (Fin g))]
      = Inr (py_round4 (Fin (svi * (4/10) + hs * (4/10) + (1 - min (g / 150000) 1) * (2/10)))))"
proof (intro conjI allI impI)
  assume "hurricane_score_of (CStr rating) = Fin hs"
  then show "calculate_vulnerability_score
        [(''RPL_THEMES'', CNum (Fin svi)), (''HRCN_RISKR'', CStr rating),
         (''GDP_PER_CAPITA'', CNum (Fin g))]
      = Inr (py_round4 (Fin (svi * (4/10) + hs * (4/10) + (1 - min (g / 150000) 1) * (2/10))))"
    by (simp add: calculate_vulnerability_score_def row_get_def py_min_def min_def)
next
  show "length (calculate_vulnerability_scores result) = length result"
    by (simp add: calculate_vulnerability_scores_def economic_vulnerability_def
        length_normalize_score)
  show "length (update_vulnerability_with_noaa_risk risk_lookup gdf) = length gdf"
    by (simp add: update_vulnerability_with_noaa_risk_def)
  show "weighted_base (Fin h) (Fin s) (Fin e) = Fin (40/100 * h + 30/100 * s + 30/100 * e)"
    by (rule weighted_base_Fin)
next
  fix i assume "i < length result"
  then show "calculate_vulnerability_scores result ! i =
        clip01 (weighted_base (hurricane_risk (result ! i)) (social_vulnerability (result ! i))
                  (normalize_score (map gdp_per_capita result) True ! i))"
    by (simp add: calculate_vulnerability_scores_def economic_vulnerability_def
        length_normalize_score)
next
  fix i assume "i < length gdf"
  then show "update_vulnerability_with_noaa_risk risk_lookup gdf ! i =
        clip01 (weighted_base (noaa_hurricane_risk risk_lookup (gdf ! i))
                  (s_social_vulnerability (gdf ! i)) (s_economic_vulnerability (gdf ! i)))"
    by (simp add: update_vulnerability_with_noaa_risk_def)
next
  assume "0 \<le> 40/100 * h + 30/100 * s + 30/100 * e \<and> 40/100 * h + 30/100 * s + 30/100 * e \<le> 1"
  then show "clip01 (weighted_base (Fin h) (Fin s) (Fin e)) = Fin (40/100 * h + 30/100 * s + 30/100 * e)"
    by (simp add: weighted_base_Fin clip01_id in_unit_def)
qed

text \<open>
  Two counties scored by the base version, one by the NOAA update and one row by the
  integration script.
\<close>

theorem base_formula_clipped_witness:
  "calculate_vulnerability_scores
     [\<lparr>NAME = ''A'', hurricane_risk = Fin (9/10), gdp = Fin 100, population = Fin 1000,
       social_vulnerability = Fin (4/10)\<rparr>,
      \<lparr>NAME = ''B'', hurricane_risk = Fin (1/2), gdp = Fin 300, population = Fin 1000,
       social_vulnerability = Fin (1/2)\<rparr>] ! 0 = Fin (78/100) \<and>
   update_vulnerability_with_noaa_risk [''A'' \<mapsto> Fin (3/10)]
     [\<lparr>s_NAME = ''A'', s_hurricane_risk = Fin (9/10), s_social_vulnerability = Fin (4/10),
       s_economic_vulnerability = Fin 1\<rparr>] ! 0 = Fin (54/100) \<and>
   clip01 (weighted_base (Fin (9/10)) (Fin (4/10)) (Fin 1)) = Fin (78/100) \<and>
   hurricane_score_of (CStr ''Very High'') = Fin (9/10) \<and>
   calculate_vulnerability_score
     [(''RPL_THEMES'', CNum (Fin (1/2))), (''HRCN_RISKR'', CStr ''Very High''),
      (''GDP_PER_CAPITA'', CNum (Fin 30000))] = Inr (Fin (72/100))"
  using base_formula_clipped[of
     "[\<lparr>NAME = ''A'', hurricane_risk = Fin (9/10), gdp = Fin 100, population = Fin 1000,
       social_vulnerability = Fin (4/10)\<rparr>,
      \<lparr>NAME = ''B'', hurricane_risk = Fin (1/2), gdp = Fin 300, population = Fin 1000,
       social_vulnerability = Fin (1/2)\<rparr>]"
     "[''A'' \<mapsto> Fin (3/10)]"
     "[\<lparr>s_NAME = ''A'', s_hurricane_risk = Fin (9/10), s_social_vulnerability = Fin (4/10),
       s_economic_vulnerability = Fin 1\<rparr>]" "9/10" "4/10" 1 "''Very High''" "9/10" "1/2" 30000]
  by (simp add: gdp_per_capita_def normalize_score_def feq_def double_ops
      noaa_hurricane_risk_def fillna_def clip01_def weighted_base_def
      hurricane_score_of_def risk_map_def py_round4_def round_half_even_def)

section \<open>The merge and the rank\<close>

lemma distinct_filter_le1:
  "distinct (map k rs) \<Longrightarrow> length (filter (\<lambda>r. k r = v) rs) \<le> Suc 0"
proof (induction rs)
  case Nil
  then show ?case by simp
next
  case (Cons r rs)
  show ?case
  proof (cases "k r = v")
    case True
    then have "\<forall>x\<in>set rs. k x \<noteq> v" using Cons.prems by (auto simp: image_iff)
    then have "filter (\<lambda>r. k r = v) rs = []" by (simp add: filter_empty_conv)
    then show ?thesis using True by simp
  next
    case False
    then show ?thesis using Cons by simp
  qed
qed

lemma length_concat_singletons:
  "(\<And>x. x \<in> set xs \<Longrightarrow> length (f x) = Suc 0) \<Longrightarrow> length (concat (map f xs)) = length xs"
  by (induction xs) simp_all

text \<open>
  A left merge with a right frame whose keys are distinct keeps the number of rows of the
  left frame and appends the right frame's columns.
\<close>

theorem merge_left_keeps_row_count:
  assumes "merge_left left right key suffix = Inr merged"
    and "distinct (map (\<lambda>r. map_of r key) (rws right))"
  shows "length (rws merged) = length (rws left) \<and>
         cols merged = cols left @ map (\<lambda>c. if c \<in> set (cols left) then c @ suffix else c)
                                      (filter (\<lambda>c. c \<noteq> key) (cols right))"
proof -
  let ?rcols = "filter (\<lambda>c. c \<noteq> key) (cols right)"
  let ?rename = "\<lambda>c. if c \<in> set (cols left) then c @ suffix else c"
  let ?f = "\<lambda>l. case filter (\<lambda>r. map_of r key = map_of l key) (rws right) of
                   [] \<Rightarrow> [l @ map (\<lambda>c. (?rename c, CNum NaN)) ?rcols]
                 | m # ms \<Rightarrow> map (\<lambda>r. l @ map (\<lambda>c. (?rename c, row_get r c (CNum NaN))) ?rcols) (m # ms)"
  have m: "merged = \<lparr>cols = cols left @ map ?rename ?rcols, rws = concat (map ?f (rws left))\<rparr>"
    using assms(1) by (simp add: merge_left_def Let_def split: if_splits)
  have one: "length (?f l) = Suc 0" for l
  proof -
    have "length (filter (\<lambda>r. map_of r key = map_of l key) (rws right)) \<le> Suc 0"
      by (rule distinct_filter_le1[OF assms(2)])
    then show ?thesis by (cases "filter (\<lambda>r. map_of r key = map_of l key) (rws right)") simp_all
  qed
  have "length (concat (map ?f (rws left))) = length (rws left)"
    by (rule length_concat_singletons) (rule one)
  then show ?thesis by (simp add: m)
qed

text \<open>
  The social-vulnerability table of the worked input holds one of the two counties; the
  merge still has two rows.
\<close>

theorem merge_left_keeps_row_count_witness:
  "merge_left demo_counties demo_svi ''FIPS'' ''_svi'' =
     Inr \<lparr>cols = [''FIPS'', ''NAME'', ''RPL_THEMES'', ''E_TOTPOP''],
          rws = [[(''FIPS'', CStr ''12001''), (''NAME'', CStr ''Alachua''),
                  (''RPL_THEMES'', CNum (Fin (1/2))), (''E_TOTPOP'', CNum (Fin 500000))],
                 [(''FIPS'', CStr ''12003''), (''NAME'', CStr ''Baker''),
                  (''RPL_THEMES'', CNum NaN), (''E_TOTPOP'', CNum NaN)]]\<rparr> \<and>
   distinct (map (\<lambda>r. map_of r ''FIPS'') (rws demo_svi)) \<and>
   length (rws demo_counties) = 2"
proof -
  have m: "merge_left demo_counties demo_svi ''FIPS'' ''_svi'' =
     Inr \<lparr>cols = [''FIPS'', ''NAME'', ''RPL_THEMES'', ''E_TOTPOP''],
          rws = [[(''FIPS'', CStr ''12001''), (''NAME'', CStr ''Alachua''),
                  (''RPL_THEMES'', CNum (Fin (1/2))), (''E_TOTPOP'', CNum (Fin 500000))],
                 [(''FIPS'', CStr ''12003''), (''NAME'', CStr ''Baker''),
                  (''RPL_THEMES'', CNum NaN), (''E_TOTPOP'', CNum NaN)]]\<rparr>"
    by (simp add: merge_left_def demo_counties_def demo_svi_def row_get_def Let_def)
  have d: "distinct (map (\<lambda>r. map_of r ''FIPS'') (rws demo_svi))"
    by (simp add: demo_svi_def)
  show ?thesis using merge_left_keeps_row_count[OF m d] m d by simp
qed

lemma demo_merge_all: "merge_all demo_counties demo_gdp demo_svi demo_nri = Inr demo_merged"
  by (simp add: merge_all_def merge_left_def select_cols_def require_col_def bind_err_def
      demo_counties_def demo_gdp_def demo_svi_def demo_nri_def demo_merged_def
      svi_columns_def nri_columns_def row_get_def Let_def)

lemma demo_scores:
  "bind_err (with_gdp_per_capita demo_merged) vulnerability_scores = Inr [Fin (64/100), NaN]"
  by (simp add: with_gdp_per_capita_def gdp_per_capita_cell_def add_col_def cell_num_def
      vulnerability_scores_def calculate_vulnerability_score_def hurricane_score_of_def
      risk_map_def row_get_def bind_err_def demo_merged_def fillna_def py_min_def double_ops
      py_round4_def round_half_even_def Let_def)

lemma demo_rank: "vulnerability_rank [Fin (64/100), NaN] = Inl IntCastingNaNError"
  by (simp add: vulnerability_rank_def astype_int_def rank_min_desc_def sort_desc_def bind_err_def)

text \<open>
  Claim C2 at its failing input. The county missing from the social-vulnerability table
  keeps its row, but its \<^verbatim>\<open>RPL_THEMES\<close> cell is NaN: the column exists after the merge, so
  \<^verbatim>\<open>row.get('RPL_THEMES', 0.5)\<close> returns the NaN and not the default. The GDP per capita
  does take its default, 50000. The county's score is NaN, and the rank column then raises
  on the NaN rank. In \<^verbatim>\<open>process_data.py\<close> a county missing from a table that holds other
  counties does get 0.5.
\<close>

theorem unmatched_county_score_is_NaN:
  "merge_all demo_counties demo_gdp demo_svi demo_nri = Inr demo_merged \<and>
   length (rws demo_merged) = length (rws demo_counties) \<and>
   row_get (rws demo_merged ! 1) ''RPL_THEMES'' (CNum (Fin (1/2))) = CNum NaN \<and>
   gdp_per_capita_cell demo_merged (rws demo_merged ! 1) = Inr (Fin 50000) \<and>
   bind_err (with_gdp_per_capita demo_merged) vulnerability_scores = Inr [Fin (64/100), NaN] \<and>
   integrate_datasets demo_counties demo_gdp demo_svi demo_nri = Inl IntCastingNaNError \<and>
   svi_for (Some [(''Alachua'', Fin (3/10))]) sample ''Baker'' = Fin (1/2)"
proof (intro conjI)
  show "svi_for (Some [(''Alachua'', Fin (3/10))]) sample ''Baker'' = Fin (1/2)"
    by (simp add: svi_for_def fillna_def)
  show "merge_all demo_counties demo_gdp demo_svi demo_nri = Inr demo_merged"
    by (rule demo_merge_all)
  show "length (rws demo_merged) = length (rws demo_counties)"
    by (simp add: demo_merged_def demo_counties_def)
  show "row_get (rws demo_merged ! 1) ''RPL_THEMES'' (CNum (Fin (1/2))) = CNum NaN"
    by (simp add: demo_merged_def row_get_def)
  show "gdp_per_capita_cell demo_merged (rws demo_merged ! 1) = Inr (Fin 50000)"
    by (simp add: demo_merged_def gdp_per_capita_cell_def row_get_def cell_num_def bind_err_def
        fillna_def double_ops)
  show s: "bind_err (with_gdp_per_capita demo_merged) vulnerability_scores = Inr [Fin (64/100), NaN]"
    by (rule demo_scores)
  show "integrate_datasets demo_counties demo_gdp demo_svi demo_nri = Inl IntCastingNaNError"
    using s demo_rank
    by (auto simp: integrate_datasets_def demo_merge_all bind_err_def split: sum.splits)
qed

text \<open>
  With both counties in every table the scores are 0.64 and 0.48 and the ranks 1 and 2,
  and the listing of the most vulnerable counties then raises \<^verbatim>\<open>KeyError\<close>.
\<close>

theorem integrate_datasets_raises_in_listing:
  "bind_err (merge_all demo_counties demo_gdp demo_svi_full demo_nri) (\<lambda>m.
     bind_err (with_gdp_per_capita m) vulnerability_scores) = Inr [Fin (64/100), Fin (48/100)] \<and>
   vulnerability_rank [Fin (64/100), Fin (48/100)] = Inr [1, 2] \<and>
   integrate_datasets demo_counties demo_gdp demo_svi_full demo_nri = Inl KeyError"
  by (simp add: integrate_datasets_def merge_all_def merge_left_def select_cols_def require_col_def
      bind_err_def demo_counties_def demo_gdp_def demo_svi_full_def demo_nri_def
      svi_columns_def nri_columns_def row_get_def Let_def
      with_gdp_per_capita_def gdp_per_capita_cell_def add_col_def cell_num_def
      vulnerability_scores_def calculate_vulnerability_score_def hurricane_score_of_def
      risk_map_def fillna_def py_min_def py_round4_def round_half_even_def double_ops
      vulnerability_rank_def astype_int_def rank_min_desc_def sort_desc_def
      summary_statistics_def is_str_def)

lemma set_insort_desc: "set (insort_desc x ys) = insert x (set ys)"
  by (induction ys) auto

lemma set_sort_desc: "set (sort_desc xs) = set xs"
  by (induction xs) (simp_all add: sort_desc_def set_insort_desc)

lemma length_filter_insort_desc:
  "length (filter P (insort_desc x ys)) = length (filter P (x # ys))"
  by (induction ys) auto

lemma length_filter_sort_desc:
  "length (filter P (sort_desc xs)) = length (filter P xs)"
  by (induction xs) (simp_all add: sort_desc_def length_filter_insort_desc)

lemma sorted_insort_desc:
  assumes "sorted_wrt (\<lambda>a b. fle b a) ys" "x \<noteq> NaN" "NaN \<notin> set ys"
  shows "sorted_wrt (\<lambda>a b. fle b a) (insort_desc x ys)"
  using assms
proof (induction ys)
  case Nil
  then show ?case by simp
next
  case (Cons y ys)
  show ?case
  proof (cases "fle y x")
    case True
    have "\<forall>z\<in>set ys. fle z x" using Cons.prems(1) True by (auto intro: fle_trans)
    then show ?thesis using True Cons.prems by simp
  next
    case False
    then have "fle x y" using fle_total[of x y] Cons.prems by auto
    then show ?thesis using False Cons by (auto simp: set_insort_desc)
  qed
qed

lemma sorted_sort_desc:
  "NaN \<notin> set xs \<Longrightarrow> sorted_wrt (\<lambda>a b. fle b a) (sort_desc xs)"
proof (induction xs)
  case Nil
  then show ?case by (simp add: sort_desc_def)
next
  case (Cons x xs)
  then have "sorted_wrt (\<lambda>a b. fle b a) (insort_desc x (sort_desc xs))"
    by (intro sorted_insort_desc) (auto simp: set_sort_desc)
  then show ?case by (simp add: sort_desc_def)
qed

lemma first_index_sorted:
  assumes "sorted_wrt (\<lambda>a b. fle b a) ys" "x \<in> set ys"
  shows "first_index x ys = length (filter (\<lambda>y. flt x y) ys)"
  using assms
proof (induction ys)
  case Nil
  then show ?case by simp
next
  case (Cons y ys)
  show ?case
  proof (cases "y = x")
    case True
    have "\<forall>z\<in>set ys. \<not> flt x z" using Cons.prems(1) True by (auto dest: flt_not_fle)
    then have "filter (\<lambda>y. flt x y) ys = []" by (simp add: filter_empty_conv)
    moreover have "\<not> flt x x" by (simp add: flt_iff)
    ultimately show ?thesis using True by simp
  next
    case False
    then have mem: "x \<in> set ys" using Cons.prems(2) by simp
    then have "fle x y" using Cons.prems(1) by simp
    then have "flt x y" using False by (auto simp: flt_iff)
    moreover have "first_index x ys = length (filter (\<lambda>y. flt x y) ys)"
      using Cons.IH Cons.prems(1) mem by simp
    ultimately show ?thesis using False by simp
  qed
qed

lemma rank_of_score:
  assumes "x \<in> set scores" "x \<noteq> NaN"
  shows "first_index x (sort_desc (filter (\<lambda>s. s \<noteq> NaN) scores))
           = length (filter (\<lambda>y. flt x y) scores)"
proof -
  let ?known = "filter (\<lambda>s. s \<noteq> NaN) scores"
  have "sorted_wrt (\<lambda>a b. fle b a) (sort_desc ?known)"
    by (rule sorted_sort_desc) simp
  moreover have "x \<in> set (sort_desc ?known)" using assms by (simp add: set_sort_desc)
  ultimately have "first_index x (sort_desc ?known) = length (filter (\<lambda>y. flt x y) (sort_desc ?known))"
    by (rule first_index_sorted)
  also have "\<dots> = length (filter (\<lambda>y. flt x y) ?known)"
    by (rule length_filter_sort_desc)
  also have "filter (\<lambda>y. flt x y) ?known = filter (\<lambda>y. flt x y) scores"
    by (induction scores) auto
  finally show ?thesis .
qed

lemma collect_all_Inr: "collect (map Inr xs) = Inr xs"
  by (induction xs) (simp_all add: bind_err_def)

lemma astype_int_Some: "astype_int (map Some ns) = Inr ns"
  by (simp add: astype_int_def comp_def collect_all_Inr)

text \<open>
  Claim C8 as stated fails on a score column with a missing score: the NaN gets no rank
  and the cast to integers raises, so no county gets a rank. This is the column the
  integration produces when a county is missing from the social-vulnerability table.
\<close>

theorem vulnerability_rank_nan_counterexample:
  "rank_min_desc [Fin (9/10), Fin (9/10), NaN] = [Some 1, Some 1, None] \<and>
   vulnerability_rank [Fin (9/10), Fin (9/10), NaN] = Inl IntCastingNaNError \<and>
   vulnerability_rank [Fin (64/100), NaN] = Inl IntCastingNaNError"
  by (simp add: vulnerability_rank_def astype_int_def rank_min_desc_def sort_desc_def bind_err_def)

text \<open>
  Claim C8, as amended. For any list of scores none of which is NaN, the rank column is a
  descending rank with the lowest rank for ties: a score's rank is one more than the number
  of scores strictly greater than it, so equal scores share a rank and the next smaller
  score's rank skips the tied positions; for \<open>[0.9, 0.9, 0.7]\<close> the ranks are 1, 1 and 3.
  In a list with NaN the same holds of the rank of every score that is not NaN, before the
  cast.
\<close>

theorem vulnerability_rank_min_ties:
  "rank_min_desc [Fin (9/10), Fin (9/10), Fin (7/10)] = [Some 1, Some 1, Some 3] \<and>
   vulnerability_rank [Fin (9/10), Fin (9/10), Fin (7/10)] = Inr [1, 1, 3] \<and>
   length (rank_min_desc scores) = length scores \<and>
   (\<forall>i < length scores. scores ! i \<noteq> NaN \<longrightarrow>
      rank_min_desc scores ! i = Some (Suc (length (filter (\<lambda>y. flt (scores ! i) y) scores)))) \<and>
   (\<forall>i < length scores. \<forall>j < length scores. scores ! j = scores ! i \<longrightarrow>
      rank_min_desc scores ! j = rank_min_desc scores ! i) \<and>
   (NaN \<notin> set scores \<longrightarrow>
      vulnerability_rank scores = Inr (map (\<lambda>x. Suc (length (filter (\<lambda>y. flt x y) scores))) scores))"
proof (intro conjI allI impI)
  show "rank_min_desc [Fin (9/10), Fin (9/10), Fin (7/10)] = [Some 1, Some 1, Some 3]"
    by (simp add: rank_min_desc_def sort_desc_def)
  then show "vulnerability_rank [Fin (9/10), Fin (9/10), Fin (7/10)] = Inr [1, 1, 3]"
    by (simp add: vulnerability_rank_def astype_int_def bind_err_def)
  show "length (rank_min_desc scores) = length scores"
    by (simp add: rank_min_desc_def)
next
  fix i assume "i < length scores" "scores ! i \<noteq> NaN"
  then show "rank_min_desc scores ! i = Some (Suc (length (filter (\<lambda>y. flt (scores ! i) y) scores)))"
    by (simp add: rank_min_desc_def rank_of_score)
next
  fix i j assume "i < length scores" "j < length scores" "scores ! j = scores ! i"
  then show "rank_min_desc scores ! j = rank_min_desc scores ! i"
    by (simp add: rank_min_desc_def)
next
  assume nn: "NaN \<notin> set scores"
  have "rank_min_desc scores = map Some (map (\<lambda>x. Suc (length (filter (\<lambda>y. flt x y) scores))) scores)"
    using nn by (auto simp: rank_min_desc_def rank_of_score)
  then show "vulnerability_rank scores = Inr (map (\<lambda>x. Suc (length (filter (\<lambda>y. flt x y) scores))) scores)"
    by (simp only: vulnerability_rank_def astype_int_Some)
qed

text \<open>
  The ranks of \<open>[0.9, 0.9, 0.7]\<close>, read off the general statement.
\<close>

theorem vulnerability_rank_min_ties_witness:
  "rank_min_desc [Fin (9/10), Fin (9/10), Fin (7/10)] ! 2 = Some 3 \<and>
   rank_min_desc [Fin (9/10), Fin (9/10), Fin (7/10)] ! 1 = rank_min_desc [Fin (9/10), Fin (9/10), Fin (7/10)] ! 0 \<and>
   NaN \<notin> set [Fin (9/10), Fin (9/10), Fin (7/10)] \<and>
   vulnerability_rank [Fin (9/10), Fin (9/10), Fin (7/10)] = Inr [1, 1, 3]"
  using vulnerability_rank_min_ties[of "[Fin (9/10), Fin (9/10), Fin (7/10)]"]
  by simp

section \<open>The threat classifier\<close>

lemma haversine_km_same_point: "haversine_km a b a b = 0"
  by (simp add: haversine_km_def)

lemma threats_without_storms:
  "calculate_county_threats parse counties county_centroids [] =
     Inr (map (\<lambda>c. \<lparr>t_NAME = c_NAME c, current_threat_level = NoThreat, nearest_storm_name = None,
                      has_active_threat = False, enhanced_vulnerability = county_score c\<rparr>)
            (filter (\<lambda>c. county_centroids (c_NAME c) \<noteq> None) counties))"
  by (induction counties)
     (auto simp: county_threat_of_def threat_level_of_def bind_err_def split: option.splits)

lemma levels_without_storms:
  "map_sum id (map current_threat_level) (calculate_county_threats parse counties county_centroids [])
     = Inr (replicate (length (filter (\<lambda>c. county_centroids (c_NAME c) \<noteq> None) counties)) NoThreat)"
  by (simp add: threats_without_storms comp_def map_replicate_const)

lemma nearest_storm_loop_none_iff:
  "nearest_storm_loop parse centroid storms acc = Inr (d, n) \<Longrightarrow>
   (snd acc = None \<longleftrightarrow> fst acc = PInf) \<Longrightarrow> (n = None \<longleftrightarrow> d = PInf)"
proof (induction storms arbitrary: acc)
  case Nil
  then show ?case by auto
next
  case (Cons s ss)
  from Cons.prems(1) obtain distance where
    dist: "haversine_distance parse (JFloat (fst centroid)) (JFloat (snd centroid))
             (latitude s) (longitude s) = Inr distance"
    and rest: "nearest_storm_loop parse centroid ss
                 (if flt distance (fst acc) then (distance, Some s) else acc) = Inr (d, n)"
    by (auto simp: bind_err_def split: sum.splits)
  have "snd (if flt distance (fst acc) then (distance, Some s) else acc) = None
          \<longleftrightarrow> fst (if flt distance (fst acc) then (distance, Some s) else acc) = PInf"
    using Cons.prems(2) by auto
  with Cons.IH[OF rest] show ?case by simp
qed

lemma level_by_distance:
  assumes "nearest_storm_loop parse centroid storms (PInf, None) = Inr (d, n)"
  shows "threat_level_of d n =
     (if fle d (Fin 100) then Extreme else if fle d (Fin 250) then High
      else if fle d (Fin 500) then Moderate else if fle d (Fin 1000) then Low else NoThreat)"
proof (cases n)
  case None
  then have "d = PInf" using nearest_storm_loop_none_iff[OF assms] by simp
  then show ?thesis using None by (simp add: threat_level_of_def fle_def feq_def)
next
  case (Some s)
  then show ?thesis by (simp add: threat_level_of_def)
qed

lemma nearest_storm_loop_minimum:
  "nearest_storm_loop parse centroid storms acc = Inr (m, n) \<Longrightarrow> fst acc \<noteq> NaN \<Longrightarrow>
   m \<noteq> NaN \<and> \<not> flt (fst acc) m \<and>
   (\<forall>s\<in>set storms. \<forall>d.
      haversine_distance parse (JFloat (fst centroid)) (JFloat (snd centroid))
        (latitude s) (longitude s) = Inr d \<longrightarrow> \<not> flt d m)"
proof (induction storms arbitrary: acc)
  case Nil
  then show ?case by (cases "fst acc") auto
next
  case (Cons s ss)
  from Cons.prems(1) obtain distance where
    dist: "haversine_distance parse (JFloat (fst centroid)) (JFloat (snd centroid))
             (latitude s) (longitude s) = Inr distance"
    and rest: "nearest_storm_loop parse centroid ss
                 (if flt distance (fst acc) then (distance, Some s) else acc) = Inr (m, n)"
    by (auto simp: bind_err_def split: sum.splits)
  let ?acc' = "if flt distance (fst acc) then (distance, Some s) else acc"
  have nn: "fst ?acc' \<noteq> NaN" using Cons.prems(2) by (auto dest: flt_not_NaN_left)
  note ih = Cons.IH[OF rest nn]
  have a: "\<not> flt (fst acc) m"
  proof (cases "flt distance (fst acc)")
    case True
    then show ?thesis using ih by (auto dest: flt_trans)
  next
    case False
    then show ?thesis using ih by simp
  qed
  have b: "\<not> flt distance m"
  proof (cases "flt distance (fst acc)")
    case True
    then show ?thesis using ih by simp
  next
    case False
    then show ?thesis using ih Cons.prems(2) not_flt_trans[of "fst acc" distance m] by simp
  qed
  show ?case using ih a b dist by auto
qed

lemma nearest_storm_loop_attained:
  "nearest_storm_loop parse centroid storms acc = Inr (m, n) \<Longrightarrow>
   (m, n) = acc \<or>
   (\<exists>s\<in>set storms. n = Some s \<and>
      haversine_distance parse (JFloat (fst centroid)) (JFloat (snd centroid))
        (latitude s) (longitude s) = Inr m)"
proof (induction storms arbitrary: acc)
  case Nil
  then show ?case by simp
next
  case (Cons s ss)
  from Cons.prems(1) obtain distance where
    dist: "haversine_distance parse (JFloat (fst centroid)) (JFloat (snd centroid))
             (latitude s) (longitude s) = Inr distance"
    and rest: "nearest_storm_loop parse centroid ss
                 (if flt distance (fst acc) then (distance, Some s) else acc) = Inr (m, n)"
    by (auto simp: bind_err_def split: sum.splits)
  from Cons.IH[OF rest] dist show ?case by (auto split: if_splits)
qed

text \<open>
  Claim C6. The threat level follows the minimum distance by inclusive ascending
  thresholds: 100 km is extreme, 250 km high, 500 km moderate, 1000 km low and 1001 km
  none; the distance the loop over the storms returns is that of its nearest storm, no storm
  is closer, and the level is the band of that distance; a county at a storm's own position
  is under extreme threat; and with no active storm every county's level is none.
\<close>

theorem threat_banding:
  "threat_level_of (Fin 100) (Some s) = Extreme \<and>
   threat_level_of (Fin 250) (Some s) = High \<and>
   threat_level_of (Fin 500) (Some s) = Moderate \<and>
   threat_level_of (Fin 1000) (Some s) = Low \<and>
   threat_level_of (Fin 1001) (Some s) = NoThreat \<and>
   threat_level_of (Fin d) (Some s) =
     (if d \<le> 100 then Extreme else if d \<le> 250 then High else if d \<le> 500 then Moderate
      else if d \<le> 1000 then Low else NoThreat) \<and>
   (nearest_storm_loop parse centroid storms (PInf, None) = Inr (m, n) \<longrightarrow>
      threat_level_of m n =
        (if fle m (Fin 100) then Extreme else if fle m (Fin 250) then High
         else if fle m (Fin 500) then Moderate else if fle m (Fin 1000) then Low else NoThreat) \<and>
      (\<forall>t\<in>set storms. \<forall>k.
         haversine_distance parse (JFloat (fst centroid)) (JFloat (snd centroid))
           (latitude t) (longitude t) = Inr k \<longrightarrow> \<not> flt k m) \<and>
      (\<forall>t. n = Some t \<longrightarrow> t \<in> set storms \<and>
         haversine_distance parse (JFloat (fst centroid)) (JFloat (snd centroid))
           (latitude t) (longitude t) = Inr m)) \<and>
   map_sum id current_threat_level
       (county_threat_of parse [s\<lparr>latitude := JFloat (Fin a), longitude := JFloat (Fin b)\<rparr>]
          county (Fin a, Fin b))
     = Inr Extreme \<and>
   map_sum id (map current_threat_level) (calculate_county_threats parse counties county_centroids [])
     = Inr (replicate (length (filter (\<lambda>c. county_centroids (c_NAME c) \<noteq> None) counties)) NoThreat)"
proof (intro conjI impI)
  show "map_sum id current_threat_level
       (county_threat_of parse [s\<lparr>latitude := JFloat (Fin a), longitude := JFloat (Fin b)\<rparr>]
          county (Fin a, Fin b)) = Inr Extreme"
    by (simp add: county_threat_of_def haversine_distance_def py_float_def great_circle_def
        haversine_km_same_point bind_err_def threat_level_of_def)
  show "map_sum id (map current_threat_level) (calculate_county_threats parse counties county_centroids [])
     = Inr (replicate (length (filter (\<lambda>c. county_centroids (c_NAME c) \<noteq> None) counties)) NoThreat)"
    by (rule levels_without_storms)
  { assume l: "nearest_storm_loop parse centroid storms (PInf, None) = Inr (m, n)"
    then show "threat_level_of m n =
        (if fle m (Fin 100) then Extreme else if fle m (Fin 250) then High
         else if fle m (Fin 500) then Moderate else if fle m (Fin 1000) then Low else NoThreat)"
      by (rule level_by_distance)
    show "\<forall>t\<in>set storms. \<forall>k.
         haversine_distance parse (JFloat (fst centroid)) (JFloat (snd centroid))
           (latitude t) (longitude t) = Inr k \<longrightarrow> \<not> flt k m"
      using nearest_storm_loop_minimum[OF l] by simp
    show "\<forall>t. n = Some t \<longrightarrow> t \<in> set storms \<and>
         haversine_distance parse (JFloat (fst centroid)) (JFloat (snd centroid))
           (latitude t) (longitude t) = Inr m"
      using nearest_storm_loop_attained[OF l] by auto }
qed (simp_all add: threat_level_of_def)

text \<open>
  A county at latitude 29, longitude -82 and a storm at the same place: the loop returns the
  distance 0 and the storm, and the level is extreme.
\<close>

theorem threat_banding_witness:
  "nearest_storm_loop (\<lambda>t. None) (Fin 29, Fin (-82))
     [demo_storm (JFloat (Fin 29)) (JFloat (Fin (-82)))] (PInf, None)
     = Inr (Fin 0, Some (demo_storm (JFloat (Fin 29)) (JFloat (Fin (-82))))) \<and>
   threat_level_of (Fin 0) (Some (demo_storm (JFloat (Fin 29)) (JFloat (Fin (-82))))) = Extreme"
proof -
  have l: "nearest_storm_loop (\<lambda>t. None) (Fin 29, Fin (-82))
     [demo_storm (JFloat (Fin 29)) (JFloat (Fin (-82)))] (PInf, None)
     = Inr (Fin 0, Some (demo_storm (JFloat (Fin 29)) (JFloat (Fin (-82)))))"
    by (simp add: demo_storm_def haversine_distance_def py_float_def great_circle_def
        haversine_km_same_point bind_err_def)
  show ?thesis
    using l threat_banding[of "demo_storm (JFloat (Fin 29)) (JFloat (Fin (-82)))" 0 "\<lambda>t. None"
        "(Fin 29, Fin (-82))" "[demo_storm (JFloat (Fin 29)) (JFloat (Fin (-82)))]" "Fin 0"
        "Some (demo_storm (JFloat (Fin 29)) (JFloat (Fin (-82))))"]
    by simp
qed

text \<open>
  Claim C9. When the request fails with a \<^verbatim>\<open>RequestException\<close>, \<^verbatim>\<open>fetch_active_storms\<close>
  returns the empty list instead of raising, and the run goes on to give every county the
  level none.
\<close>

theorem fetch_failure_degrades_to_no_threat:
  "fetch_active_storms RequestException = Inr [] \<and>
   map_sum id (map current_threat_level) (classifier_run parse counties county_centroids RequestException)
     = Inr (replicate (length (filter (\<lambda>c. county_centroids (c_NAME c) \<noteq> None) counties)) NoThreat)"
  by (simp add: fetch_active_storms_def classifier_run_def bind_err_def levels_without_storms)

lemma py_float_huge: "py_float parse (JInt (2 ^ 1024)) = Inl OverflowError"
  by (simp add: py_float_def)

text \<open>
  Claim C10 at its failing input. A storm whose latitude is the integer \<open>2^1024\<close> makes
  \<^verbatim>\<open>float\<close> raise \<^verbatim>\<open>OverflowError\<close>, which the handler of \<^verbatim>\<open>haversine_distance\<close> does not
  catch: the function raises, and so does the assessment of the counties.
\<close>

theorem haversine_distance_overflow:
  "haversine_distance parse (JFloat (Fin 29)) (JFloat (Fin (-82))) (JInt (2 ^ 1024)) (JFloat (Fin (-80)))
     = Inl OverflowError \<and>
   calculate_county_threats parse
     [\<lparr>c_NAME = ''Alachua'', c_enhanced_vulnerability = Some (Fin (7/10)), c_vulnerability_score = None\<rparr>]
     [''Alachua'' \<mapsto> (Fin 29, Fin (-82))]
     [\<lparr>storm_name = JStr ''Ana'', latitude = JInt (2 ^ 1024), longitude = JFloat (Fin (-80)),
       wind_speed_kt = JInt 70, category = ''Category 1 Hurricane''\<rparr>]
     = Inl OverflowError"
  by (simp add: haversine_distance_def py_float_huge py_float_def bind_err_def county_threat_of_def)

text \<open>
  What the handler does cover: with a storm coordinate that is \<^verbatim>\<open>None\<close>, a list or an
  object, or a string that is not a number, the distance is infinity, and a storm at
  distance infinity leaves the minimum distance and the nearest storm as they were.
\<close>

theorem haversine_distance_malformed_ignored:
  "haversine_distance parse (JFloat x) (JFloat y) JNull lon2 = Inr PInf \<and>
   haversine_distance parse (JFloat x) (JFloat y) JOther lon2 = Inr PInf \<and>
   (parse t = None \<longrightarrow> haversine_distance parse (JFloat x) (JFloat y) (JStr t) lon2 = Inr PInf) \<and>
   haversine_distance parse (JFloat x) (JFloat y) (JFloat z) JNull = Inr PInf \<and>
   (parse t = None \<longrightarrow> haversine_distance parse (JFloat x) (JFloat y) (JFloat z) (JStr t) = Inr PInf) \<and>
   (haversine_distance parse (JFloat (fst centroid)) (JFloat (snd centroid)) (latitude s) (longitude s)
      = Inr PInf \<longrightarrow>
    nearest_storm_loop parse centroid (s # ss) acc = nearest_storm_loop parse centroid ss acc)"
proof -
  have "\<not> flt PInf (fst acc)" by (cases "fst acc") simp_all
  then show ?thesis
    by (simp add: haversine_distance_def py_float_def bind_err_def)
qed

text \<open>
  A storm with the coordinates \<^verbatim>\<open>"17.2N"\<close> and \<^verbatim>\<open>"60.9W"\<close>, which are not numbers.
\<close>

theorem haversine_distance_malformed_ignored_witness:
  "(\<lambda>t. None) ''17.2N'' = (None :: pyfloat option) \<and>
   haversine_distance (\<lambda>t. None) (JFloat (Fin 29)) (JFloat (Fin (-82))) (JStr ''17.2N'') (JStr ''60.9W'') = Inr PInf \<and>
   nearest_storm_loop (\<lambda>t. None) (Fin 29, Fin (-82))
     [\<lparr>storm_name = JStr ''Ana'', latitude = JStr ''17.2N'', longitude = JStr ''60.9W'',
       wind_speed_kt = JInt 70, category = ''Category 1 Hurricane''\<rparr>] (PInf, None) = Inr (PInf, None)"
  using haversine_distance_malformed_ignored[of "\<lambda>t. None" "Fin 29" "Fin (-82)" "JStr ''60.9W''" "''17.2N''"
      "Fin 0" "(Fin 29, Fin (-82))"
      "\<lparr>storm_name = JStr ''Ana'', latitude = JStr ''17.2N'', longitude = JStr ''60.9W'',
        wind_speed_kt = JInt 70, category = ''Category 1 Hurricane''\<rparr>" "[]" "(PInf, None)"]
  by simp

lemma is_critical_not_NaN: "is_critical c \<Longrightarrow> enhanced_vulnerability c \<noteq> NaN"
  by (auto simp: is_critical_def dest: fle_not_NaN)

lemma set_insort_threat: "set (insort_threat c ds) = insert c (set ds)"
  by (induction ds) auto

lemma set_sort_by_vulnerability: "set (sort_by_vulnerability cs) = set cs"
  by (induction cs) (simp_all add: sort_by_vulnerability_def set_insort_threat)

lemma length_insort_threat: "length (insort_threat c ds) = Suc (length ds)"
  by (induction ds) auto

lemma length_sort_by_vulnerability: "length (sort_by_vulnerability cs) = length cs"
  by (induction cs) (simp_all add: sort_by_vulnerability_def length_insort_threat)

lemma sorted_insort_threat:
  assumes "sorted_wrt (\<lambda>a b. fle (enhanced_vulnerability b) (enhanced_vulnerability a)) ds"
    "enhanced_vulnerability c \<noteq> NaN" "\<forall>d\<in>set ds. enhanced_vulnerability d \<noteq> NaN"
  shows "sorted_wrt (\<lambda>a b. fle (enhanced_vulnerability b) (enhanced_vulnerability a)) (insort_threat c ds)"
  using assms
proof (induction ds)
  case Nil
  then show ?case by simp
next
  case (Cons d ds)
  show ?case
  proof (cases "fle (enhanced_vulnerability d) (enhanced_vulnerability c)")
    case True
    have "\<forall>z\<in>set ds. fle (enhanced_vulnerability z) (enhanced_vulnerability c)"
      using Cons.prems(1) True by (auto intro: fle_trans)
    then show ?thesis using True Cons.prems by simp
  next
    case False
    then have "fle (enhanced_vulnerability c) (enhanced_vulnerability d)"
      using fle_total[of "enhanced_vulnerability c" "enhanced_vulnerability d"] Cons.prems by auto
    then show ?thesis using False Cons by (auto simp: set_insort_threat)
  qed
qed

lemma sorted_sort_by_vulnerability:
  "\<forall>c\<in>set cs. enhanced_vulnerability c \<noteq> NaN \<Longrightarrow>
   sorted_wrt (\<lambda>a b. fle (enhanced_vulnerability b) (enhanced_vulnerability a)) (sort_by_vulnerability cs)"
proof (induction cs)
  case Nil
  then show ?case by (simp add: sort_by_vulnerability_def)
next
  case (Cons c cs)
  then have "sorted_wrt (\<lambda>a b. fle (enhanced_vulnerability b) (enhanced_vulnerability a))
               (insort_threat c (sort_by_vulnerability cs))"
    by (intro sorted_insort_threat) (auto simp: set_sort_by_vulnerability)
  then show ?case by (simp add: sort_by_vulnerability_def)
qed

text \<open>
  Claim C7 as stated fails for the summary's list, which keeps the first ten entries only:
  of eleven counties under a high threat, the one with the score 0.60 comes last and is
  cut.
\<close>

theorem summary_critical_counties_counterexample:
  "demo_threat ''Zeta'' High (6/10) \<in> set demo_threats \<and>
   current_threat_level (demo_threat ''Zeta'' High (6/10)) = High \<and>
   enhanced_vulnerability (demo_threat ''Zeta'' High (6/10)) = Fin (6/10) \<and>
   demo_threat ''Zeta'' High (6/10) \<notin> set (summary_critical_counties demo_threats)"
  by (simp add: demo_threats_def demo_threat_def summary_critical_counties_def
      sort_by_vulnerability_def is_critical_def)

text \<open>
  Claim C7, as amended. A county is in the list served by \<^verbatim>\<open>get_critical_threats\<close> if and
  only if its threat level is extreme or high and its score is at least 0.6; that list is
  in descending order of score; the summary's list is its first ten entries, and the whole
  of it when at most ten counties qualify. A county with a moderate threat level is in
  neither list, whatever its score; a county with a high threat level and the score 0.60
  is in the served list.
\<close>

theorem critical_counties_lists:
  "(c \<in> set (get_critical_threats threats) \<longleftrightarrow>
      c \<in> set threats \<and> (current_threat_level c = Extreme \<or> current_threat_level c = High)
      \<and> fle (Fin (6/10)) (enhanced_vulnerability c)) \<and>
   sorted_wrt (\<lambda>a b. fle (enhanced_vulnerability b) (enhanced_vulnerability a))
     (get_critical_threats threats) \<and>
   summary_critical_counties threats = take 10 (get_critical_threats threats) \<and>
   (length (filter is_critical threats) \<le> 10 \<longrightarrow>
      summary_critical_counties threats = get_critical_threats threats) \<and>
   (current_threat_level c = Moderate \<longrightarrow>
      c \<notin> set (get_critical_threats threats) \<and> c \<notin> set (summary_critical_counties threats)) \<and>
   (c \<in> set threats \<and> current_threat_level c = High \<and> enhanced_vulnerability c = Fin (6/10) \<longrightarrow>
      c \<in> set (get_critical_threats threats))"
proof (intro conjI impI)
  show mem: "c \<in> set (get_critical_threats threats) \<longleftrightarrow>
      c \<in> set threats \<and> (current_threat_level c = Extreme \<or> current_threat_level c = High)
      \<and> fle (Fin (6/10)) (enhanced_vulnerability c)"
    by (auto simp: get_critical_threats_def set_sort_by_vulnerability is_critical_def)
  show "sorted_wrt (\<lambda>a b. fle (enhanced_vulnerability b) (enhanced_vulnerability a))
     (get_critical_threats threats)"
    unfolding get_critical_threats_def
    by (rule sorted_sort_by_vulnerability) (simp add: is_critical_not_NaN)
  show "summary_critical_counties threats = take 10 (get_critical_threats threats)"
    by (simp add: summary_critical_counties_def get_critical_threats_def)
  { assume "length (filter is_critical threats) \<le> 10"
    then show "summary_critical_counties threats = get_critical_threats threats"
      by (simp add: summary_critical_counties_def get_critical_threats_def
          length_sort_by_vulnerability) }
  { assume m: "current_threat_level c = Moderate"
    then show "c \<notin> set (get_critical_threats threats)" using mem by simp
    then show "c \<notin> set (summary_critical_counties threats)"
      by (auto simp: summary_critical_counties_def get_critical_threats_def dest: in_set_takeD) }
  { assume "c \<in> set threats \<and> current_threat_level c = High \<and> enhanced_vulnerability c = Fin (6/10)"
    then show "c \<in> set (get_critical_threats threats)" using mem by simp }
qed

text \<open>
  The county with the score 0.60 among the eleven, a county under moderate threat with
  the score 0.95, and a summary of one county.
\<close>

theorem critical_counties_lists_witness:
  "demo_threat ''Zeta'' High (6/10) \<in> set (get_critical_threats demo_threats) \<and>
   demo_threat ''M'' Moderate (95/100) \<notin> set (get_critical_threats (demo_threat ''M'' Moderate (95/100) # demo_threats)) \<and>
   length (filter is_critical [demo_threat ''Zeta'' High (6/10)]) \<le> 10 \<and>
   summary_critical_counties [demo_threat ''Zeta'' High (6/10)] = [demo_threat ''Zeta'' High (6/10)]"
  using critical_counties_lists[of "demo_threat ''Zeta'' High (6/10)" demo_threats]
    critical_counties_lists[of "demo_threat ''M'' Moderate (95/100)" "demo_threat ''M'' Moderate (95/100) # demo_threats"]
    critical_counties_lists[of "demo_threat ''Zeta'' High (6/10)" "[demo_threat ''Zeta'' High (6/10)]"]
  by (simp add: demo_threats_def demo_threat_def is_critical_def get_critical_threats_def
      sort_by_vulnerability_def)

end
